theory Spec2Isabelle
  imports Complex_Main
begin

section \<open>Finaura Pro: the paper-trading ledger and the live quote cache\<close>

text \<open>
  A shallow embedding of the trading routes and the price refresh of \<^verbatim>\<open>server.py\<close>.
  SQLite \<^verbatim>\<open>REAL\<close> columns and Python floats are modelled as \<^typ>\<open>real\<close>: the arithmetic is
  exact, and no NaN or infinity exists. A table is the list of its rows in insertion order;
  a Python dict is the list of its items in insertion order, with unique keys. A Python
  \<^verbatim>\<open>str\<close> is the list of its UTF-8 bytes. Four functions of Python itself are parameters of
  the code that calls them, so that every theorem holds whatever they compute:
  \<^verbatim>\<open>str.upper()\<close>, \<^verbatim>\<open>round(x, 2)\<close> (which rounds a binary double), and \<^verbatim>\<open>float(text)\<close> and
  \<^verbatim>\<open>int(text)\<close> of a string.
\<close>

subsection \<open>Python dicts\<close>

type_synonym ('k, 'v) dict = "('k \<times> 'v) list"

text \<open>\<^verbatim>\<open>d.get(k)\<close>: the value stored under the key, or \<^verbatim>\<open>None\<close>.\<close>

fun dict_get :: "('k, 'v) dict \<Rightarrow> 'k \<Rightarrow> 'v option" where
  "dict_get [] k = None"
| "dict_get ((k', v) # d) k = (if k' = k then Some v else dict_get d k)"

text \<open>\<^verbatim>\<open>d[k] = v\<close>: an existing key keeps its place, a new key goes to the end.\<close>

fun dict_set :: "('k, 'v) dict \<Rightarrow> 'k \<Rightarrow> 'v \<Rightarrow> ('k, 'v) dict" where
  "dict_set [] k v = [(k, v)]"
| "dict_set ((k', v') # d) k v = (if k' = k then (k, v) # d else (k', v') # dict_set d k v)"

text \<open>\<^verbatim>\<open>d.update(other)\<close>: every item of \<^verbatim>\<open>other\<close> is stored into \<^verbatim>\<open>d\<close>, in order.\<close>

fun dict_update :: "('k, 'v) dict \<Rightarrow> ('k, 'v) dict \<Rightarrow> ('k, 'v) dict" where
  "dict_update d [] = d"
| "dict_update d ((k, v) # other) = dict_update (dict_set d k v) other"

subsection \<open>Quotes and the price cache\<close>

text \<open>The dict that both adapters build for one symbol (lines 133-139 and 170-176).\<close>

record quote =
  q_symbol :: string
  q_price :: real
  q_change :: real
  q_changePercent :: real
  q_volume :: int
  q_high :: real
  q_low :: real
  q_open :: real
  q_prevClose :: real

text \<open>The global \<^verbatim>\<open>_prices\<close>; the lock plays no part in a sequential run.\<close>

type_synonym prices = "(string, quote) dict"

definition get_price :: "prices \<Rightarrow> string \<Rightarrow> quote option" where
  "get_price prices symbol = dict_get prices symbol"

definition get_all_prices :: "prices \<Rightarrow> quote list" where
  "get_all_prices prices = map snd prices"

subsection \<open>The database\<close>

text \<open>
  The three tables that the trading routes touch. The surrogate \<^verbatim>\<open>id\<close> columns and the
  \<^verbatim>\<open>timestamp\<close> column (filled by SQLite's clock) are not read by any modelled code and are
  left out.
\<close>

record balance_row =
  ub_user_id :: int
  ub_balance :: real

record portfolio_row =
  pf_user_id :: int
  pf_symbol :: string
  pf_shares :: real
  pf_avg_price :: real

record transaction_row =
  tx_user_id :: int
  tx_symbol :: string
  tx_type :: string
  tx_shares :: real
  tx_price :: real
  tx_total :: real
  tx_pnl :: real

record database =
  user_balance :: "balance_row list"
  portfolio :: "portfolio_row list"
  transactions :: "transaction_row list"

definition INITIAL_BALANCE :: real where
  "INITIAL_BALANCE = 25000"

text \<open>\<^verbatim>\<open>SELECT ... WHERE p\<close> with \<^verbatim>\<open>fetchone()\<close>: the first matching row, or \<^verbatim>\<open>None\<close>.\<close>

fun fetchone :: "('r \<Rightarrow> bool) \<Rightarrow> 'r list \<Rightarrow> 'r option" where
  "fetchone p [] = None"
| "fetchone p (r # rows) = (if p r then Some r else fetchone p rows)"

text \<open>\<^verbatim>\<open>UPDATE ... SET ... WHERE p\<close>: every matching row is rewritten; none may match.\<close>

definition sql_update :: "('r \<Rightarrow> bool) \<Rightarrow> ('r \<Rightarrow> 'r) \<Rightarrow> 'r list \<Rightarrow> 'r list" where
  "sql_update p f rows = map (\<lambda>r. if p r then f r else r) rows"

text \<open>\<^verbatim>\<open>DELETE FROM ... WHERE p\<close>.\<close>

definition sql_delete :: "('r \<Rightarrow> bool) \<Rightarrow> 'r list \<Rightarrow> 'r list" where
  "sql_delete p rows = filter (\<lambda>r. \<not> p r) rows"

text \<open>\<^verbatim>\<open>INSERT INTO ... VALUES ...\<close>: the new row is the last one.\<close>

definition sql_insert :: "'r \<Rightarrow> 'r list \<Rightarrow> 'r list" where
  "sql_insert r rows = rows @ [r]"

definition get_balance :: "int \<Rightarrow> database \<Rightarrow> real" where
  "get_balance uid s =
     (case fetchone (\<lambda>r. ub_user_id r = uid) (user_balance s) of
        Some row \<Rightarrow> ub_balance row
      | None \<Rightarrow> INITIAL_BALANCE)"

definition ensure_balance_row :: "int \<Rightarrow> database \<Rightarrow> database" where
  "ensure_balance_row uid s =
     (case fetchone (\<lambda>r. ub_user_id r = uid) (user_balance s) of
        Some existing \<Rightarrow> s
      | None \<Rightarrow>
          s\<lparr>user_balance :=
               sql_insert \<lparr>ub_user_id = uid, ub_balance = INITIAL_BALANCE\<rparr> (user_balance s)\<rparr>)"

subsection \<open>Requests and responses\<close>

text \<open>
  The JSON body of a trade request: each key may be absent. The values are taken as already
  of the right JSON type, so that \<^verbatim>\<open>float(...)\<close> does not raise.
\<close>

record trade_request =
  rq_symbol :: "string option"
  rq_shares :: "real option"
  rq_price :: "real option"

text \<open>
  The four refusals of the routes (\<^verbatim>\<open>"Invalid parameters"\<close>, \<^verbatim>\<open>"Price not available"\<close>,
  \<^verbatim>\<open>"Insufficient funds"\<close>, \<^verbatim>\<open>"Not enough shares"\<close>, each with status 400), and the one
  exception that the arithmetic of \<^verbatim>\<open>buy\<close> can raise.
\<close>

datatype error =
  InvalidParameters
| PriceUnavailable
| InsufficientFunds
| InsufficientShares
| ZeroDivisionError

record buy_response =
  br_balance :: real
  br_price :: real

record sell_response =
  sr_balance :: real
  sr_pnl :: real
  sr_price :: real

text \<open>
  \<^verbatim>\<open>str.replace('.', '-')\<close>. The byte of the dot occurs in UTF-8 text only as a dot, so the
  replacement on bytes is the replacement on characters.
\<close>

definition replace_dot :: "string \<Rightarrow> string" where
  "replace_dot s = map (\<lambda>c. if c = CHR ''.'' then CHR ''-'' else c) s"

text \<open>Lines 399-400 and 450-451: the live quote, else the price the client sent.\<close>

definition live_quote :: "prices \<Rightarrow> string \<Rightarrow> quote option" where
  "live_quote prices symbol =
     (case get_price prices symbol of
        Some q \<Rightarrow> Some q
      | None \<Rightarrow> get_price prices (replace_dot symbol))"

definition resolve_price :: "prices \<Rightarrow> string \<Rightarrow> trade_request \<Rightarrow> real" where
  "resolve_price prices symbol d =
     (case live_quote prices symbol of
        Some live \<Rightarrow> q_price live
      | None \<Rightarrow> (case rq_price d of Some p \<Rightarrow> p | None \<Rightarrow> 0))"

text \<open>
  Lines 393-394: \<^verbatim>\<open>d.get("symbol", "").upper()\<close> and \<^verbatim>\<open>float(d.get("shares", 0))\<close>. The parameter
  \<open>upper\<close> is \<^verbatim>\<open>str.upper\<close>.
\<close>

definition request_symbol :: "(string \<Rightarrow> string) \<Rightarrow> trade_request \<Rightarrow> string" where
  "request_symbol upper d = upper (case rq_symbol d of Some x \<Rightarrow> x | None \<Rightarrow> [])"

definition request_shares :: "trade_request \<Rightarrow> real" where
  "request_shares d = (case rq_shares d of Some x \<Rightarrow> x | None \<Rightarrow> 0)"

subsection \<open>The trading routes\<close>

definition position_of :: "int \<Rightarrow> string \<Rightarrow> portfolio_row \<Rightarrow> bool" where
  "position_of uid symbol r \<longleftrightarrow> pf_user_id r = uid \<and> pf_symbol r = symbol"

text \<open>
  \<^verbatim>\<open>buy\<close>, lines 390-437, for the logged-in user \<open>uid\<close>. An error leaves the database as it
  was: every early return comes before the first write, and so does the division.
\<close>

definition buy ::
  "(string \<Rightarrow> string) \<Rightarrow> prices \<Rightarrow> int \<Rightarrow> trade_request \<Rightarrow> database
     \<Rightarrow> (error + buy_response) \<times> database" where
  "buy upper prices uid d s =
     (let symbol = request_symbol upper d; shrs = request_shares d in
      if shrs \<le> 0 \<or> symbol = [] then (Inl InvalidParameters, s)
      else
        let prc = resolve_price prices symbol d in
        if prc \<le> 0 then (Inl PriceUnavailable, s)
        else
          let total = shrs * prc; bal = get_balance uid s in
          if bal < total then (Inl InsufficientFunds, s)
          else
            let new_bal = bal - total;
                tx = \<lparr>tx_user_id = uid, tx_symbol = symbol, tx_type = ''BUY'', tx_shares = shrs,
                      tx_price = prc, tx_total = total, tx_pnl = 0\<rparr>;
                finish = (\<lambda>pf.
                  (Inr \<lparr>br_balance = new_bal, br_price = prc\<rparr>,
                   s\<lparr>portfolio := pf,
                     transactions := sql_insert tx (transactions s),
                     user_balance :=
                       sql_update (\<lambda>r. ub_user_id r = uid) (\<lambda>r. r\<lparr>ub_balance := new_bal\<rparr>)
                         (user_balance s)\<rparr>))
            in
            case fetchone (position_of uid symbol) (portfolio s) of
              Some existing \<Rightarrow>
                let new_shares = pf_shares existing + shrs in
                if new_shares = 0 then (Inl ZeroDivisionError, s)
                else
                  let new_avg = (pf_avg_price existing * pf_shares existing + total) / new_shares in
                  finish (sql_update (position_of uid symbol)
                            (\<lambda>r. r\<lparr>pf_shares := new_shares, pf_avg_price := new_avg\<rparr>)
                            (portfolio s))
            | None \<Rightarrow>
                finish (sql_insert \<lparr>pf_user_id = uid, pf_symbol = symbol, pf_shares = shrs,
                                    pf_avg_price = prc\<rparr> (portfolio s)))"

text \<open>\<^verbatim>\<open>sell\<close>, lines 441-485. The balance is read after the position has been written.\<close>

definition sell ::
  "(string \<Rightarrow> string) \<Rightarrow> prices \<Rightarrow> int \<Rightarrow> trade_request \<Rightarrow> database
     \<Rightarrow> (error + sell_response) \<times> database" where
  "sell upper prices uid d s =
     (let symbol = request_symbol upper d; shrs = request_shares d in
      if shrs \<le> 0 \<or> symbol = [] then (Inl InvalidParameters, s)
      else
        let prc = resolve_price prices symbol d in
        if prc \<le> 0 then (Inl PriceUnavailable, s)
        else
          case fetchone (position_of uid symbol) (portfolio s) of
            None \<Rightarrow> (Inl InsufficientShares, s)
          | Some pos \<Rightarrow>
              if pf_shares pos < shrs then (Inl InsufficientShares, s)
              else
                let proceeds = shrs * prc;
                    pnl = (prc - pf_avg_price pos) * shrs;
                    new_shares = pf_shares pos - shrs;
                    pf = (if new_shares \<le> 0 then sql_delete (position_of uid symbol) (portfolio s)
                          else sql_update (position_of uid symbol) (\<lambda>r. r\<lparr>pf_shares := new_shares\<rparr>)
                                 (portfolio s));
                    tx = \<lparr>tx_user_id = uid, tx_symbol = symbol, tx_type = ''SELL'', tx_shares = shrs,
                          tx_price = prc, tx_total = proceeds, tx_pnl = pnl\<rparr>;
                    s1 = s\<lparr>portfolio := pf, transactions := sql_insert tx (transactions s)\<rparr>;
                    bal = get_balance uid s1;
                    new_bal = bal + proceeds
                in (Inr \<lparr>sr_balance = new_bal, sr_pnl = pnl, sr_price = prc\<rparr>,
                    s1\<lparr>user_balance :=
                         sql_update (\<lambda>r. ub_user_id r = uid) (\<lambda>r. r\<lparr>ub_balance := new_bal\<rparr>)
                           (user_balance s1)\<rparr>))"

subsection \<open>Well-formed tables\<close>

text \<open>
  What the schema and the routes keep true of the \<^verbatim>\<open>portfolio\<close> table: a stored position has a
  positive number of shares and a non-empty symbol, and \<^verbatim>\<open>UNIQUE(user_id, symbol)\<close> holds.
\<close>

definition positions_valid :: "database \<Rightarrow> bool" where
  "positions_valid s \<longleftrightarrow> list_all (\<lambda>r. 0 < pf_shares r \<and> pf_symbol r \<noteq> []) (portfolio s)"

definition portfolio_unique :: "database \<Rightarrow> bool" where
  "portfolio_unique s \<longleftrightarrow> distinct (map (\<lambda>r. (pf_user_id r, pf_symbol r)) (portfolio s))"

definition has_balance_row :: "int \<Rightarrow> database \<Rightarrow> bool" where
  "has_balance_row uid s \<longleftrightarrow> fetchone (\<lambda>r. ub_user_id r = uid) (user_balance s) \<noteq> None"

text \<open>The cost basis of all the positions of one account, and its cash plus that.\<close>

definition cost_basis :: "int \<Rightarrow> database \<Rightarrow> real" where
  "cost_basis uid s =
     sum_list (map (\<lambda>r. pf_shares r * pf_avg_price r)
                 (filter (\<lambda>r. pf_user_id r = uid) (portfolio s)))"

definition nominal_exposure :: "int \<Rightarrow> database \<Rightarrow> real" where
  "nominal_exposure uid s = get_balance uid s + cost_basis uid s"

definition empty_database :: database where
  "empty_database = \<lparr>user_balance = [], portfolio = [], transactions = []\<rparr>"

subsection \<open>Numbers\<close>

text \<open>\<^verbatim>\<open>int(x)\<close> of a number: truncation towards zero.\<close>

definition py_int :: "real \<Rightarrow> int" where
  "py_int x = (if 0 \<le> x then \<lfloor>x\<rfloor> else \<lceil>x\<rceil>)"

subsection \<open>The two quote source adapters\<close>

text \<open>\<^verbatim>\<open>a or b\<close> where \<^verbatim>\<open>a\<close> comes from \<^verbatim>\<open>item.get(...)\<close>: \<^verbatim>\<open>None\<close>, \<^verbatim>\<open>""\<close>, \<^verbatim>\<open>0\<close> and \<^verbatim>\<open>[]\<close> are falsy.\<close>

definition or_str :: "string option \<Rightarrow> string \<Rightarrow> string" where
  "or_str a b = (case a of Some x \<Rightarrow> if x \<noteq> [] then x else b | None \<Rightarrow> b)"

definition or_num :: "real option \<Rightarrow> real \<Rightarrow> real" where
  "or_num a b = (case a of Some x \<Rightarrow> if x \<noteq> 0 then x else b | None \<Rightarrow> b)"

definition or_list :: "'a list option \<Rightarrow> 'a list \<Rightarrow> 'a list" where
  "or_list a b = (case a of Some x \<Rightarrow> if x \<noteq> [] then x else b | None \<Rightarrow> b)"

text \<open>
  One record of the NEPSE API's JSON, with the keys that \<^verbatim>\<open>fetch_nepse_api\<close> reads. A key may
  be absent; a present value is taken to be a JSON string (the two symbol keys) or a JSON
  number (the others), so that \<^verbatim>\<open>float\<close> and \<^verbatim>\<open>int\<close> do not raise.
\<close>

record nepse_item =
  ni_symbol :: "string option"
  ni_stockSymbol :: "string option"
  ni_closingPrice :: "real option"
  ni_lastTradedPrice :: "real option"
  ni_ltp :: "real option"
  ni_previousClose :: "real option"
  ni_prevClose :: "real option"
  ni_totalTradeQuantity :: "real option"
  ni_volume :: "real option"
  ni_highPrice :: "real option"
  ni_lowPrice :: "real option"

record nepse_data =
  nd_content :: "nepse_item list option"
  nd_data :: "nepse_item list option"

text \<open>
  What the network gives on one tick. \<^verbatim>\<open>None\<close> stands for every exception that the adapter
  catches (no connection, a timeout, a body that is not JSON, no \<^verbatim>\<open>bs4\<close>). For the scrape,
  \<^verbatim>\<open>Some None\<close> is a page without the table, and \<^verbatim>\<open>Some (Some rows)\<close> the \<^verbatim>\<open>tr\<close> elements
  of the table, each as the stripped texts of its \<^verbatim>\<open>td\<close> cells.
\<close>

record network =
  HAS_REQUESTS :: bool
  net_nepse :: "nepse_data option"
  net_merolagani :: "string list list option option"

text \<open>Lines 161-165: the last traded price, the previous close and the change of one item.\<close>

definition nepse_last :: "nepse_item \<Rightarrow> real" where
  "nepse_last item =
     or_num (ni_closingPrice item) (or_num (ni_lastTradedPrice item) (or_num (ni_ltp item) 0))"

definition nepse_prev :: "nepse_item \<Rightarrow> real" where
  "nepse_prev item =
     or_num (ni_previousClose item) (or_num (ni_prevClose item) (nepse_last item))"

text \<open>
  The body of the loop of \<^verbatim>\<open>fetch_nepse_api\<close>: the entry that one item adds, if any. The
  parameter \<open>round2\<close> is \<^verbatim>\<open>round(x, 2)\<close>.
\<close>

definition nepse_entry :: "(real \<Rightarrow> real) \<Rightarrow> nepse_item \<Rightarrow> (string \<times> quote) option" where
  "nepse_entry round2 item =
     (let symbol = or_str (ni_symbol item) (or_str (ni_stockSymbol item) []);
          ltp = nepse_last item;
          prev = nepse_prev item;
          chg = round2 (ltp - prev);
          chgp = round2 (if prev \<noteq> 0 then chg / prev * 100 else 0);
          vol = py_int (or_num (ni_totalTradeQuantity item) (or_num (ni_volume item) 0));
          high = or_num (ni_highPrice item) ltp;
          low = or_num (ni_lowPrice item) ltp
      in if symbol \<noteq> [] \<and> 0 < ltp
         then Some (symbol,
                \<lparr>q_symbol = symbol, q_price = round2 ltp, q_change = round2 chg,
                 q_changePercent = chgp, q_volume = vol, q_high = round2 high,
                 q_low = round2 low, q_open = round2 prev, q_prevClose = round2 prev\<rparr>)
         else None)"

definition add_entry :: "(string \<times> quote) option \<Rightarrow> prices \<Rightarrow> prices" where
  "add_entry e results = (case e of Some (symbol, q) \<Rightarrow> dict_set results symbol q | None \<Rightarrow> results)"

definition fetch_nepse_api :: "(real \<Rightarrow> real) \<Rightarrow> network \<Rightarrow> prices" where
  "fetch_nepse_api round2 net =
     (if \<not> HAS_REQUESTS net then []
      else case net_nepse net of
             None \<Rightarrow> []
           | Some data \<Rightarrow>
               let items = or_list (nd_content data) (or_list (nd_data data) [])
               in fold (\<lambda>item results. add_entry (nepse_entry round2 item) results) items [])"

text \<open>
  \<^verbatim>\<open>float(text)\<close> and \<^verbatim>\<open>int(text)\<close> of a string are Python's own; the scrape adapter takes them
  as the parameters \<open>pfloat\<close> and \<open>pint\<close>, \<^verbatim>\<open>None\<close> standing for \<^verbatim>\<open>ValueError\<close>.
\<close>

definition strip_commas :: "string \<Rightarrow> string" where
  "strip_commas t = filter (\<lambda>c. c \<noteq> CHR '','') t"

text \<open>\<^verbatim>\<open>float(text.replace(",", "") or dflt)\<close> and \<^verbatim>\<open>int(text.replace(",", "") or 0)\<close>.\<close>

definition float_or :: "(string \<Rightarrow> real option) \<Rightarrow> string \<Rightarrow> real \<Rightarrow> real option" where
  "float_or pfloat t dflt = (let c = strip_commas t in if c = [] then Some dflt else pfloat c)"

definition int_or_zero :: "(string \<Rightarrow> int option) \<Rightarrow> string \<Rightarrow> int option" where
  "int_or_zero pint t = (let c = strip_commas t in if c = [] then Some 0 else pint c)"

text \<open>
  The body of the loop of \<^verbatim>\<open>fetch_merolagani\<close>, lines 120-141: \<^verbatim>\<open>None\<close> when the row is
  skipped (too few cells, a \<^verbatim>\<open>ValueError\<close>, or a last price that is not positive).
\<close>

definition merolagani_entry ::
  "(real \<Rightarrow> real) \<Rightarrow> (string \<Rightarrow> real option) \<Rightarrow> (string \<Rightarrow> int option) \<Rightarrow> string list
     \<Rightarrow> (string \<times> quote) option" where
  "merolagani_entry round2 pfloat pint cols =
     (if length cols < 6 then None
      else
        let symbol = cols ! 1 in
        case float_or pfloat (cols ! 2) 0 of None \<Rightarrow> None | Some ltp \<Rightarrow>
        case float_or pfloat (cols ! 5) 0 of None \<Rightarrow> None | Some chg \<Rightarrow>
        let prev = ltp - chg;
            chgp = round2 (if prev \<noteq> 0 then chg / prev * 100 else 0) in
        case (if 6 < length cols then int_or_zero pint (cols ! 6) else Some 0) of
          None \<Rightarrow> None | Some vol \<Rightarrow>
        case (if 3 < length cols then float_or pfloat (cols ! 3) ltp else Some ltp) of
          None \<Rightarrow> None | Some high \<Rightarrow>
        case (if 4 < length cols then float_or pfloat (cols ! 4) ltp else Some ltp) of
          None \<Rightarrow> None | Some low \<Rightarrow>
        if 0 < ltp
        then Some (symbol,
               \<lparr>q_symbol = symbol, q_price = round2 ltp, q_change = round2 chg,
                q_changePercent = chgp, q_volume = vol, q_high = round2 high,
                q_low = round2 low, q_open = round2 prev, q_prevClose = round2 prev\<rparr>)
        else None)"

definition fetch_merolagani ::
  "(real \<Rightarrow> real) \<Rightarrow> (string \<Rightarrow> real option) \<Rightarrow> (string \<Rightarrow> int option) \<Rightarrow> network \<Rightarrow> prices" where
  "fetch_merolagani round2 pfloat pint net =
     (if \<not> HAS_REQUESTS net then []
      else case net_merolagani net of
             None \<Rightarrow> []
           | Some None \<Rightarrow> []
           | Some (Some table) \<Rightarrow>
               fold (\<lambda>cols results. add_entry (merolagani_entry round2 pfloat pint cols) results)
                 (drop 1 table) [])"

subsection \<open>The refresh tick\<close>

datatype adapter = NepseApi | Merolagani

text \<open>
  \<^verbatim>\<open>refresh_all_prices\<close>, lines 182-199: the new cache, and the adapters that were invoked, in
  the order of their invocation.
\<close>

definition refresh_all_prices ::
  "(real \<Rightarrow> real) \<Rightarrow> (string \<Rightarrow> real option) \<Rightarrow> (string \<Rightarrow> int option) \<Rightarrow> network \<Rightarrow> prices
     \<Rightarrow> prices \<times> adapter list" where
  "refresh_all_prices round2 pfloat pint net prices =
     (let first = fetch_nepse_api round2 net;
          (results, calls) =
            (if first = [] then (fetch_merolagani round2 pfloat pint net, [NepseApi, Merolagani])
             else (first, [NepseApi]))
      in if results \<noteq> [] then (dict_update prices results, calls) else (prices, calls))"

subsection \<open>Python's functions on plain text\<close>

text \<open>
  \<^verbatim>\<open>str.upper()\<close> on ASCII text, where it maps the 26 small letters and nothing else. It is
  used only to run the routes on the ASCII symbols of the examples.
\<close>

definition ascii_upper_char :: "char \<Rightarrow> char" where
  "ascii_upper_char c =
     (case map_of (zip ''abcdefghijklmnopqrstuvwxyz'' ''ABCDEFGHIJKLMNOPQRSTUVWXYZ'') c of
        Some u \<Rightarrow> u
      | None \<Rightarrow> c)"

definition ascii_upper :: "string \<Rightarrow> string" where
  "ascii_upper s = map ascii_upper_char s"

text \<open>
  The part of the syntax of \<^verbatim>\<open>float(text)\<close> and \<^verbatim>\<open>int(text)\<close> that a price table uses: an
  optional sign, digits, and for \<^verbatim>\<open>float\<close> an optional fraction. Python accepts more (an
  exponent, \<^verbatim>\<open>inf\<close>, underscores); on the literals below the two agree.
\<close>

definition digit_value :: "char \<Rightarrow> nat option" where
  "digit_value c = map_of (zip ''0123456789'' [0, 1, 2, 3, 4, 5, 6, 7, 8, 9]) c"

fun digits_value :: "nat \<Rightarrow> string \<Rightarrow> nat option" where
  "digits_value acc [] = Some acc"
| "digits_value acc (c # cs) =
     (case digit_value c of None \<Rightarrow> None | Some v \<Rightarrow> digits_value (10 * acc + v) cs)"

definition unsigned_decimal :: "string \<Rightarrow> real option" where
  "unsigned_decimal t =
     (let ip = takeWhile (\<lambda>c. c \<noteq> CHR ''.'') t; rest = dropWhile (\<lambda>c. c \<noteq> CHR ''.'') t;
          fp = drop 1 rest
      in if ip = [] \<and> fp = [] then None
         else case digits_value 0 ip of None \<Rightarrow> None | Some i \<Rightarrow>
              case digits_value 0 fp of None \<Rightarrow> None | Some f \<Rightarrow>
                Some (real i + real f / 10 ^ length fp))"

definition decimal_float :: "string \<Rightarrow> real option" where
  "decimal_float t =
     (case t of
        [] \<Rightarrow> None
      | c # cs \<Rightarrow>
          if c = CHR ''-'' then map_option uminus (unsigned_decimal cs)
          else if c = CHR ''+'' then unsigned_decimal cs
          else unsigned_decimal t)"

definition unsigned_int :: "string \<Rightarrow> int option" where
  "unsigned_int t = (if t = [] then None else map_option int (digits_value 0 t))"

definition decimal_int :: "string \<Rightarrow> int option" where
  "decimal_int t =
     (case t of
        [] \<Rightarrow> None
      | c # cs \<Rightarrow>
          if c = CHR ''-'' then map_option uminus (unsigned_int cs)
          else if c = CHR ''+'' then unsigned_int cs
          else unsigned_int t)"

subsection \<open>Example data\<close>

text \<open>The scenario of the specification: an account with 25000, \<^verbatim>\<open>NABIL\<close> quoted at 500, 600, 700.\<close>

definition flat_quote :: "string \<Rightarrow> real \<Rightarrow> quote" where
  "flat_quote symbol p =
     \<lparr>q_symbol = symbol, q_price = p, q_change = 0, q_changePercent = 0, q_volume = 0,
      q_high = p, q_low = p, q_open = p, q_prevClose = p\<rparr>"

definition cache_at :: "real \<Rightarrow> prices" where
  "cache_at p = [(''NABIL'', flat_quote ''NABIL'' p)]"

definition order_for :: "string \<Rightarrow> real \<Rightarrow> trade_request" where
  "order_for symbol n = \<lparr>rq_symbol = Some symbol, rq_shares = Some n, rq_price = None\<rparr>"

definition priced_order :: "string \<Rightarrow> real \<Rightarrow> real \<Rightarrow> trade_request" where
  "priced_order symbol n p = \<lparr>rq_symbol = Some symbol, rq_shares = Some n, rq_price = Some p\<rparr>"

definition fresh_account :: database where
  "fresh_account = ensure_balance_row 1 empty_database"

definition after_first_buy :: database where
  "after_first_buy = snd (buy ascii_upper (cache_at 500) 1 (order_for ''nabil'' 10) fresh_account)"

text \<open>The same first buy by a session whose user has no row in \<^verbatim>\<open>user_balance\<close>.\<close>

definition unrowed_after_buy :: database where
  "unrowed_after_buy =
     snd (buy ascii_upper (cache_at 500) 1 (order_for ''NABIL'' 10) empty_database)"

text \<open>
  Two answers of the network: the API is down, and the page has one row, for \<^verbatim>\<open>NABIL\<close> in
  \<open>scrape_only\<close> and with an empty symbol cell in \<open>blank_symbol_page\<close>.
\<close>

definition scrape_only :: network where
  "scrape_only =
     \<lparr>HAS_REQUESTS = True, net_nepse = None,
      net_merolagani =
        Some (Some [[], [''1'', ''NABIL'', ''505.00'', ''510'', ''499'', ''5'', ''1,200'']])\<rparr>"

definition blank_symbol_page :: network where
  "blank_symbol_page =
     \<lparr>HAS_REQUESTS = True, net_nepse = None,
      net_merolagani = Some (Some [[], [''1'', [], ''100'', ''101'', ''99'', ''5'']])\<rparr>"

section \<open>Properties\<close>

subsection \<open>Queries on a table\<close>

lemma fetchone_Some_iff:
  "fetchone p rows = Some r \<Longrightarrow> r \<in> set rows \<and> p r"
  by (induction rows) (auto split: if_splits)

lemma fetchone_None_iff:
  "fetchone p rows = None \<longleftrightarrow> (\<forall>r\<in>set rows. \<not> p r)"
  by (induction rows) auto

lemma fetchone_sql_update:
  assumes "\<And>r. p r \<Longrightarrow> p (f r)"
  shows "fetchone p (sql_update p f rows) = map_option f (fetchone p rows)"
  using assms by (induction rows) (auto simp: sql_update_def)

lemma fetchone_position_update:
  "fetchone (position_of uid symbol)
     (sql_update (position_of uid symbol) (\<lambda>r. r\<lparr>pf_shares := x, pf_avg_price := y\<rparr>) rows) =
   map_option (\<lambda>r. r\<lparr>pf_shares := x, pf_avg_price := y\<rparr>) (fetchone (position_of uid symbol) rows)"
  by (rule fetchone_sql_update) (simp add: position_of_def)

lemma fetchone_position_update_shares:
  "fetchone (position_of uid symbol)
     (sql_update (position_of uid symbol) (\<lambda>r. r\<lparr>pf_shares := x\<rparr>) rows) =
   map_option (\<lambda>r. r\<lparr>pf_shares := x\<rparr>) (fetchone (position_of uid symbol) rows)"
  by (rule fetchone_sql_update) (simp add: position_of_def)

lemma fetchone_sql_insert:
  "fetchone p (sql_insert r rows) =
     (case fetchone p rows of Some x \<Rightarrow> Some x | None \<Rightarrow> if p r then Some r else None)"
  by (induction rows) (auto simp: sql_insert_def)

lemma fetchone_sql_delete:
  "fetchone p (sql_delete p rows) = None"
  by (simp add: fetchone_None_iff sql_delete_def)

lemma sql_update_no_match:
  "fetchone p rows = None \<Longrightarrow> sql_update p f rows = rows"
  by (induction rows) (auto simp: sql_update_def split: if_splits)

subsection \<open>The two successful paths of a buy\<close>

lemma buy_existing:
  assumes "request_symbol upper d = symbol" "request_shares d = shrs"
    and "resolve_price prices symbol d = prc"
    and "symbol \<noteq> []" "0 < shrs" "0 < prc" "shrs * prc \<le> get_balance uid s"
    and "fetchone (position_of uid symbol) (portfolio s) = Some old"
    and "pf_shares old + shrs \<noteq> 0"
  shows "buy upper prices uid d s =
     (Inr \<lparr>br_balance = get_balance uid s - shrs * prc, br_price = prc\<rparr>,
      s\<lparr>portfolio :=
           sql_update (position_of uid symbol)
             (\<lambda>r. r\<lparr>pf_shares := pf_shares old + shrs,
                     pf_avg_price :=
                       (pf_avg_price old * pf_shares old + shrs * prc) / (pf_shares old + shrs)\<rparr>)
             (portfolio s),
         transactions :=
           sql_insert \<lparr>tx_user_id = uid, tx_symbol = symbol, tx_type = ''BUY'', tx_shares = shrs,
                       tx_price = prc, tx_total = shrs * prc, tx_pnl = 0\<rparr> (transactions s),
         user_balance :=
           sql_update (\<lambda>r. ub_user_id r = uid)
             (\<lambda>r. r\<lparr>ub_balance := get_balance uid s - shrs * prc\<rparr>) (user_balance s)\<rparr>)"
  using assms by (simp add: buy_def Let_def)

lemma buy_new:
  assumes "request_symbol upper d = symbol" "request_shares d = shrs"
    and "resolve_price prices symbol d = prc"
    and "symbol \<noteq> []" "0 < shrs" "0 < prc" "shrs * prc \<le> get_balance uid s"
    and "fetchone (position_of uid symbol) (portfolio s) = None"
  shows "buy upper prices uid d s =
     (Inr \<lparr>br_balance = get_balance uid s - shrs * prc, br_price = prc\<rparr>,
      s\<lparr>portfolio :=
           sql_insert \<lparr>pf_user_id = uid, pf_symbol = symbol, pf_shares = shrs,
                       pf_avg_price = prc\<rparr> (portfolio s),
         transactions :=
           sql_insert \<lparr>tx_user_id = uid, tx_symbol = symbol, tx_type = ''BUY'', tx_shares = shrs,
                       tx_price = prc, tx_total = shrs * prc, tx_pnl = 0\<rparr> (transactions s),
         user_balance :=
           sql_update (\<lambda>r. ub_user_id r = uid)
             (\<lambda>r. r\<lparr>ub_balance := get_balance uid s - shrs * prc\<rparr>) (user_balance s)\<rparr>)"
  using assms by (simp add: buy_def Let_def)

lemma positions_valid_held:
  assumes "positions_valid s" "fetchone (position_of uid symbol) (portfolio s) = Some old"
  shows "0 < pf_shares old \<and> symbol \<noteq> []"
proof -
  from assms(2) have "old \<in> set (portfolio s)" "position_of uid symbol old"
    by (auto dest: fetchone_Some_iff)
  with assms(1) show ?thesis
    by (auto simp: positions_valid_def list_all_iff position_of_def)
qed

subsection \<open>Average cost of a position\<close>

text \<open>
  Claim C1. A buy that passes the checks of the route, by an account that already holds a
  position in the symbol, leaves that position with \<open>oldShares + shares\<close> shares at the
  average cost \<open>(oldAvgCost * oldShares + shares * price) / newShares\<close>. And two buys of the
  same symbol, \<open>a\<close> shares at \<open>p1\<close> and then \<open>b\<close> shares at \<open>p2\<close>, by an account that held no
  position in it, leave the position with \<open>a + b\<close> shares at \<open>(a * p1 + b * p2) / (a + b)\<close>.
  A stored position has positive shares and a non-empty symbol (\<open>positions_valid\<close>, which every
  trade keeps true).
\<close>

theorem buy_average_cost:
  "(positions_valid s \<and> request_symbol upper d = symbol \<and> request_shares d = shrs \<and>
    resolve_price prices symbol d = prc \<and> 0 < shrs \<and> 0 < prc \<and>
    shrs * prc \<le> get_balance uid s \<and>
    fetchone (position_of uid symbol) (portfolio s) = Some old
    \<longrightarrow> (\<exists>r. fst (buy upper prices uid d s) = Inr r) \<and>
        fetchone (position_of uid symbol) (portfolio (snd (buy upper prices uid d s))) =
          Some (old\<lparr>pf_shares := pf_shares old + shrs,
                    pf_avg_price :=
                      (pf_avg_price old * pf_shares old + shrs * prc) / (pf_shares old + shrs)\<rparr>))
   \<and>
   (request_symbol upper d1 = sy \<and> request_symbol upper d2 = sy \<and> sy \<noteq> [] \<and>
    request_shares d1 = a \<and> request_shares d2 = b \<and>
    resolve_price prices1 sy d1 = p1 \<and> resolve_price prices2 sy d2 = p2 \<and>
    0 < a \<and> 0 < b \<and> 0 < p1 \<and> 0 < p2 \<and>
    fetchone (position_of uid' sy) (portfolio s0) = None \<and>
    a * p1 \<le> get_balance uid' s0 \<and>
    b * p2 \<le> get_balance uid' (snd (buy upper prices1 uid' d1 s0))
    \<longrightarrow> fetchone (position_of uid' sy)
          (portfolio (snd (buy upper prices2 uid' d2 (snd (buy upper prices1 uid' d1 s0))))) =
        Some \<lparr>pf_user_id = uid', pf_symbol = sy, pf_shares = a + b,
              pf_avg_price = (a * p1 + b * p2) / (a + b)\<rparr>)"
proof (intro conjI impI)
  assume h: "positions_valid s \<and> request_symbol upper d = symbol \<and> request_shares d = shrs \<and>
    resolve_price prices symbol d = prc \<and> 0 < shrs \<and> 0 < prc \<and>
    shrs * prc \<le> get_balance uid s \<and>
    fetchone (position_of uid symbol) (portfolio s) = Some old"
  then have pos: "0 < pf_shares old" and ne: "symbol \<noteq> []"
    using positions_valid_held by blast+
  with h have nz: "pf_shares old + shrs \<noteq> 0" by linarith
  have eq: "buy upper prices uid d s = (Inr \<lparr>br_balance = get_balance uid s - shrs * prc, br_price = prc\<rparr>,
      s\<lparr>portfolio :=
           sql_update (position_of uid symbol)
             (\<lambda>r. r\<lparr>pf_shares := pf_shares old + shrs,
                     pf_avg_price :=
                       (pf_avg_price old * pf_shares old + shrs * prc) / (pf_shares old + shrs)\<rparr>)
             (portfolio s),
         transactions :=
           sql_insert \<lparr>tx_user_id = uid, tx_symbol = symbol, tx_type = ''BUY'', tx_shares = shrs,
                       tx_price = prc, tx_total = shrs * prc, tx_pnl = 0\<rparr> (transactions s),
         user_balance :=
           sql_update (\<lambda>r. ub_user_id r = uid)
             (\<lambda>r. r\<lparr>ub_balance := get_balance uid s - shrs * prc\<rparr>) (user_balance s)\<rparr>)"
    using h ne nz by (intro buy_existing) auto
  show "\<exists>r. fst (buy upper prices uid d s) = Inr r" by (simp add: eq)
  show "fetchone (position_of uid symbol) (portfolio (snd (buy upper prices uid d s))) =
          Some (old\<lparr>pf_shares := pf_shares old + shrs,
                    pf_avg_price :=
                      (pf_avg_price old * pf_shares old + shrs * prc) / (pf_shares old + shrs)\<rparr>)"
    using h by (simp add: eq fetchone_position_update)
next
  assume h: "request_symbol upper d1 = sy \<and> request_symbol upper d2 = sy \<and> sy \<noteq> [] \<and>
    request_shares d1 = a \<and> request_shares d2 = b \<and>
    resolve_price prices1 sy d1 = p1 \<and> resolve_price prices2 sy d2 = p2 \<and>
    0 < a \<and> 0 < b \<and> 0 < p1 \<and> 0 < p2 \<and>
    fetchone (position_of uid' sy) (portfolio s0) = None \<and>
    a * p1 \<le> get_balance uid' s0 \<and>
    b * p2 \<le> get_balance uid' (snd (buy upper prices1 uid' d1 s0))"
  define s1 where "s1 = snd (buy upper prices1 uid' d1 s0)"
  define row where "row = \<lparr>pf_user_id = uid', pf_symbol = sy, pf_shares = a, pf_avg_price = p1\<rparr>"
  have pf1: "portfolio s1 = sql_insert row (portfolio s0)"
    unfolding s1_def row_def using h by (subst buy_new[where symbol=sy and shrs=a and prc=p1]) auto
  have held: "fetchone (position_of uid' sy) (portfolio s1) = Some row"
    using h by (simp add: pf1 fetchone_sql_insert) (simp add: row_def position_of_def)
  have nz: "pf_shares row + b \<noteq> 0" using h by (simp add: row_def)
  have "portfolio (snd (buy upper prices2 uid' d2 s1)) =
      sql_update (position_of uid' sy)
        (\<lambda>r. r\<lparr>pf_shares := pf_shares row + b,
                pf_avg_price := (pf_avg_price row * pf_shares row + b * p2) / (pf_shares row + b)\<rparr>)
        (portfolio s1)"
    using h held nz unfolding s1_def[symmetric]
    by (subst buy_existing[where symbol=sy and shrs=b and prc=p2 and old=row]) (auto simp: s1_def)
  then show "fetchone (position_of uid' sy)
          (portfolio (snd (buy upper prices2 uid' d2 (snd (buy upper prices1 uid' d1 s0))))) =
        Some \<lparr>pf_user_id = uid', pf_symbol = sy, pf_shares = a + b,
              pf_avg_price = (a * p1 + b * p2) / (a + b)\<rparr>"
    unfolding s1_def[symmetric]
    by (simp add: fetchone_position_update held) (simp add: row_def mult.commute)
qed


lemmas example_defs = after_first_buy_def fresh_account_def cache_at_def
  flat_quote_def order_for_def priced_order_def empty_database_def ensure_balance_row_def
  unrowed_after_buy_def

lemmas route_defs = buy_def sell_def request_symbol_def request_shares_def ascii_upper_def
  ascii_upper_char_def replace_dot_def resolve_price_def live_quote_def get_price_def get_balance_def
  INITIAL_BALANCE_def position_of_def sql_insert_def sql_update_def sql_delete_def Let_def

lemma after_first_buy_eq:
  "after_first_buy =
     \<lparr>user_balance = [\<lparr>ub_user_id = 1, ub_balance = 20000\<rparr>],
      portfolio = [\<lparr>pf_user_id = 1, pf_symbol = ''NABIL'', pf_shares = 10, pf_avg_price = 500\<rparr>],
      transactions = [\<lparr>tx_user_id = 1, tx_symbol = ''NABIL'', tx_type = ''BUY'', tx_shares = 10,
                       tx_price = 500, tx_total = 5000, tx_pnl = 0\<rparr>]\<rparr>"
  by (simp add: example_defs route_defs)

theorem buy_average_cost_witness:
  "fetchone (position_of 1 ''NABIL'') (portfolio after_first_buy) =
     Some \<lparr>pf_user_id = 1, pf_symbol = ''NABIL'', pf_shares = 10, pf_avg_price = 500\<rparr> \<and>
   fetchone (position_of 1 ''NABIL'')
     (portfolio (snd (buy ascii_upper (cache_at 600) 1 (order_for ''NABIL'' 10) after_first_buy))) =
     Some \<lparr>pf_user_id = 1, pf_symbol = ''NABIL'', pf_shares = 20, pf_avg_price = 550\<rparr> \<and>
   fetchone (position_of 1 ''NABIL'') (portfolio fresh_account) = None \<and>
   fetchone (position_of 1 ''NABIL'')
     (portfolio (snd (buy ascii_upper (cache_at 600) 1 (order_for ''NABIL'' 10)
                   (snd (buy ascii_upper (cache_at 500) 1 (order_for ''NABIL'' 10) fresh_account))))) =
     Some \<lparr>pf_user_id = 1, pf_symbol = ''NABIL'', pf_shares = 20, pf_avg_price = 550\<rparr>"
proof -
  let ?old = "\<lparr>pf_user_id = 1, pf_symbol = ''NABIL'', pf_shares = 10, pf_avg_price = 500\<rparr>"
  let ?d = "order_for ''NABIL'' 10"
  have held: "fetchone (position_of 1 ''NABIL'') (portfolio after_first_buy) = Some ?old"
    by (simp add: after_first_buy_eq position_of_def)
  have h1: "positions_valid after_first_buy \<and> request_symbol ascii_upper ?d = ''NABIL'' \<and>
      request_shares ?d = 10 \<and> resolve_price (cache_at 600) ''NABIL'' ?d = 600 \<and>
      (0::real) < 10 \<and> (0::real) < 600 \<and> 10 * 600 \<le> get_balance 1 after_first_buy \<and>
      fetchone (position_of 1 ''NABIL'') (portfolio after_first_buy) = Some ?old"
    by (simp add: after_first_buy_eq positions_valid_def example_defs route_defs)
  have free: "fetchone (position_of 1 ''NABIL'') (portfolio fresh_account) = None"
    by (simp add: example_defs route_defs)
  have h2: "request_symbol ascii_upper ?d = ''NABIL'' \<and> request_symbol ascii_upper ?d = ''NABIL'' \<and> ''NABIL'' \<noteq> [] \<and>
      request_shares ?d = 10 \<and> request_shares ?d = 10 \<and>
      resolve_price (cache_at 500) ''NABIL'' ?d = 500 \<and>
      resolve_price (cache_at 600) ''NABIL'' ?d = 600 \<and>
      (0::real) < 10 \<and> (0::real) < 10 \<and> (0::real) < 500 \<and> (0::real) < 600 \<and>
      fetchone (position_of 1 ''NABIL'') (portfolio fresh_account) = None \<and>
      10 * 500 \<le> get_balance 1 fresh_account \<and>
      10 * 600 \<le> get_balance 1 (snd (buy ascii_upper (cache_at 500) 1 ?d fresh_account))"
    by (simp add: example_defs route_defs)
  note t = buy_average_cost [where s = after_first_buy and d = ?d and symbol = "''NABIL''"
      and shrs = 10 and prices = "cache_at 600" and prc = 600 and uid = 1 and old = ?old
      and ?d1.0 = ?d and ?d2.0 = ?d and sy = "''NABIL''" and a = 10 and b = 10
      and ?prices1.0 = "cache_at 500" and ?prices2.0 = "cache_at 600" and ?p1.0 = 500
      and ?p2.0 = 600 and uid' = 1 and ?s0.0 = fresh_account]
  from t h1 have c1: "fetchone (position_of 1 ''NABIL'')
     (portfolio (snd (buy ascii_upper (cache_at 600) 1 ?d after_first_buy))) =
     Some (?old\<lparr>pf_shares := pf_shares ?old + 10,
                pf_avg_price := (pf_avg_price ?old * pf_shares ?old + 10 * 600) / (pf_shares ?old + 10)\<rparr>)"
    by blast
  from t h2 have c2: "fetchone (position_of 1 ''NABIL'')
     (portfolio (snd (buy ascii_upper (cache_at 600) 1 ?d (snd (buy ascii_upper (cache_at 500) 1 ?d fresh_account))))) =
     Some \<lparr>pf_user_id = 1, pf_symbol = ''NABIL'', pf_shares = 10 + 10,
           pf_avg_price = (10 * 500 + 10 * 600) / (10 + 10)\<rparr>"
    by blast
  from held c1 free c2 show ?thesis by simp
qed


subsection \<open>Errors write nothing, and trades keep the positions valid\<close>

lemma buy_error_state: "fst (buy upper prices uid d s) = Inl e \<Longrightarrow> snd (buy upper prices uid d s) = s"
  by (auto simp: buy_def Let_def split: if_splits option.splits)

lemma sell_error_state: "fst (sell upper prices uid d s) = Inl e \<Longrightarrow> snd (sell upper prices uid d s) = s"
  by (auto simp: sell_def Let_def split: if_splits option.splits)

lemma positions_valid_empty: "positions_valid empty_database"
  by (simp add: positions_valid_def empty_database_def)

lemma buy_positions_valid:
  assumes "positions_valid s"
  shows "positions_valid (snd (buy upper prices uid d s))"
proof (cases "fetchone (position_of uid (request_symbol upper d)) (portfolio s)")
  case None
  with assms show ?thesis
    by (auto simp: buy_def Let_def positions_valid_def sql_insert_def)
next
  case (Some old)
  with assms have "0 < pf_shares old" using positions_valid_held by blast
  with Some assms show ?thesis
    by (auto simp: buy_def Let_def positions_valid_def sql_update_def list_all_iff)
qed

lemma sell_positions_valid:
  assumes "positions_valid s"
  shows "positions_valid (snd (sell upper prices uid d s))"
  using assms
  by (auto simp: sell_def Let_def positions_valid_def sql_update_def sql_delete_def list_all_iff
      split: option.splits)

lemma sell_held:
  assumes "request_symbol upper d = symbol" "request_shares d = shrs"
    and "resolve_price prices symbol d = prc"
    and "symbol \<noteq> []" "0 < shrs" "0 < prc"
    and "fetchone (position_of uid symbol) (portfolio s) = Some pos"
    and "shrs \<le> pf_shares pos"
  shows "sell upper prices uid d s =
     (Inr \<lparr>sr_balance = get_balance uid s + shrs * prc,
           sr_pnl = (prc - pf_avg_price pos) * shrs, sr_price = prc\<rparr>,
      s\<lparr>portfolio :=
           (if pf_shares pos - shrs \<le> 0 then sql_delete (position_of uid symbol) (portfolio s)
            else sql_update (position_of uid symbol)
                   (\<lambda>r. r\<lparr>pf_shares := pf_shares pos - shrs\<rparr>) (portfolio s)),
         transactions :=
           sql_insert \<lparr>tx_user_id = uid, tx_symbol = symbol, tx_type = ''SELL'', tx_shares = shrs,
                       tx_price = prc, tx_total = shrs * prc,
                       tx_pnl = (prc - pf_avg_price pos) * shrs\<rparr> (transactions s),
         user_balance :=
           sql_update (\<lambda>r. ub_user_id r = uid)
             (\<lambda>r. r\<lparr>ub_balance := get_balance uid s + shrs * prc\<rparr>) (user_balance s)\<rparr>)"
  using assms by (simp add: sell_def Let_def get_balance_def)

subsection \<open>Insufficient funds\<close>

text \<open>
  Claim C5. A buy of a symbol (a non-empty string) with shares > 0 and a resolved price > 0
  fails with \<open>InsufficientFunds\<close> exactly when \<open>shares * price\<close> exceeds the current balance; on
  that failure the database is the one before the call; and a buy whose total equals the
  balance succeeds.
\<close>

theorem buy_insufficient_funds:
  assumes "request_symbol upper d = symbol" and "request_shares d = shrs"
    and "resolve_price prices symbol d = prc"
    and "symbol \<noteq> []" and "0 < shrs" and "0 < prc"
  shows "(fst (buy upper prices uid d s) = Inl InsufficientFunds \<longleftrightarrow> get_balance uid s < shrs * prc) \<and>
         (fst (buy upper prices uid d s) = Inl InsufficientFunds \<longrightarrow> snd (buy upper prices uid d s) = s) \<and>
         (positions_valid s \<and> shrs * prc = get_balance uid s
            \<longrightarrow> (\<exists>r. fst (buy upper prices uid d s) = Inr r))"
proof (intro conjI impI)
  show "fst (buy upper prices uid d s) = Inl InsufficientFunds \<longleftrightarrow> get_balance uid s < shrs * prc"
    using assms by (auto simp: buy_def Let_def split: option.splits)
  show "snd (buy upper prices uid d s) = s" if "fst (buy upper prices uid d s) = Inl InsufficientFunds"
    using that by (rule buy_error_state)
  show "\<exists>r. fst (buy upper prices uid d s) = Inr r"
    if h: "positions_valid s \<and> shrs * prc = get_balance uid s"
  proof (cases "fetchone (position_of uid symbol) (portfolio s)")
    case None
    with assms h show ?thesis by (simp add: buy_new)
  next
    case (Some old)
    with h have "0 < pf_shares old" using positions_valid_held by blast
    with assms have "pf_shares old + shrs \<noteq> 0" by linarith
    with assms h Some show ?thesis by (simp add: buy_existing)
  qed
qed

subsection \<open>A buy by a user without a balance row\<close>

text \<open>
  Claim C10. For a user with no row in \<^verbatim>\<open>user_balance\<close>, a buy of a symbol (a non-empty
  string) with shares > 0, a resolved price > 0 and a total that does not exceed the initial
  balance succeeds: the position and the \<^verbatim>\<open>BUY\<close> transaction are recorded and the response
  reports the initial balance minus the total; but the \<^verbatim>\<open>UPDATE\<close> matches no row, the table
  \<^verbatim>\<open>user_balance\<close> is unchanged, and \<open>get_balance\<close> still returns the initial balance.
\<close>

theorem buy_without_balance_row:
  assumes "request_symbol upper d = symbol" and "request_shares d = shrs"
    and "resolve_price prices symbol d = prc"
    and "symbol \<noteq> []" and "0 < shrs" and "0 < prc"
    and "shrs * prc \<le> INITIAL_BALANCE"
    and "\<not> has_balance_row uid s" and "positions_valid s"
  shows "fst (buy upper prices uid d s) =
           Inr \<lparr>br_balance = INITIAL_BALANCE - shrs * prc, br_price = prc\<rparr> \<and>
         (\<exists>r. fetchone (position_of uid symbol) (portfolio (snd (buy upper prices uid d s))) = Some r \<and>
              pf_shares r =
                (case fetchone (position_of uid symbol) (portfolio s) of
                   None \<Rightarrow> shrs
                 | Some old \<Rightarrow> pf_shares old + shrs)) \<and>
         transactions (snd (buy upper prices uid d s)) =
           transactions s @
             [\<lparr>tx_user_id = uid, tx_symbol = symbol, tx_type = ''BUY'', tx_shares = shrs,
               tx_price = prc, tx_total = shrs * prc, tx_pnl = 0\<rparr>] \<and>
         user_balance (snd (buy upper prices uid d s)) = user_balance s \<and>
         get_balance uid (snd (buy upper prices uid d s)) = INITIAL_BALANCE"
proof -
  have norow: "fetchone (\<lambda>r. ub_user_id r = uid) (user_balance s) = None"
    using assms(8) by (simp add: has_balance_row_def)
  then have bal: "get_balance uid s = INITIAL_BALANCE"
    by (simp add: get_balance_def)
  have same: "sql_update (\<lambda>r. ub_user_id r = uid) f (user_balance s) = user_balance s" for f
    using norow by (rule sql_update_no_match)
  show ?thesis
  proof (cases "fetchone (position_of uid symbol) (portfolio s)")
    case None
    have "buy upper prices uid d s = 
     (Inr \<lparr>br_balance = get_balance uid s - shrs * prc, br_price = prc\<rparr>,
      s\<lparr>portfolio :=
           sql_insert \<lparr>pf_user_id = uid, pf_symbol = symbol, pf_shares = shrs,
                       pf_avg_price = prc\<rparr> (portfolio s),
         transactions :=
           sql_insert \<lparr>tx_user_id = uid, tx_symbol = symbol, tx_type = ''BUY'', tx_shares = shrs,
                       tx_price = prc, tx_total = shrs * prc, tx_pnl = 0\<rparr> (transactions s),
         user_balance :=
           sql_update (\<lambda>r. ub_user_id r = uid)
             (\<lambda>r. r\<lparr>ub_balance := get_balance uid s - shrs * prc\<rparr>) (user_balance s)\<rparr>)"
      using assms None by (intro buy_new) (simp_all add: bal)
    then show ?thesis
      using None norow
      by (simp add: same bal fetchone_sql_insert get_balance_def) (simp add: sql_insert_def position_of_def)
  next
    case (Some old)
    with assms have "0 < pf_shares old" using positions_valid_held by blast
    with assms have nz: "pf_shares old + shrs \<noteq> 0" by linarith
    have "buy upper prices uid d s =
     (Inr \<lparr>br_balance = get_balance uid s - shrs * prc, br_price = prc\<rparr>,
      s\<lparr>portfolio :=
           sql_update (position_of uid symbol)
             (\<lambda>r. r\<lparr>pf_shares := pf_shares old + shrs,
                     pf_avg_price :=
                       (pf_avg_price old * pf_shares old + shrs * prc) / (pf_shares old + shrs)\<rparr>)
             (portfolio s),
         transactions :=
           sql_insert \<lparr>tx_user_id = uid, tx_symbol = symbol, tx_type = ''BUY'', tx_shares = shrs,
                       tx_price = prc, tx_total = shrs * prc, tx_pnl = 0\<rparr> (transactions s),
         user_balance :=
           sql_update (\<lambda>r. ub_user_id r = uid)
             (\<lambda>r. r\<lparr>ub_balance := get_balance uid s - shrs * prc\<rparr>) (user_balance s)\<rparr>)"
      using assms Some nz by (intro buy_existing) (simp_all add: bal)
    then show ?thesis
      using Some norow
      by (simp add: same bal fetchone_position_update get_balance_def) (simp add: sql_insert_def)
  qed
qed

subsection \<open>Insufficient shares\<close>

text \<open>
  Claim C4, amended. A sell of a symbol (a non-empty string) with shares > 0 and a resolved
  price > 0, by an account that holds no position in the symbol or holds fewer shares than
  requested, fails with \<open>InsufficientShares\<close> and leaves the database as it was. Without the
  two conditions on shares and price the route answers with another error first.
\<close>

theorem sell_insufficient_shares:
  assumes "request_symbol upper d = symbol" and "request_shares d = shrs"
    and "resolve_price prices symbol d = prc"
    and "symbol \<noteq> []" and "0 < shrs" and "0 < prc"
    and "fetchone (position_of uid symbol) (portfolio s) = None \<or>
         (\<exists>pos. fetchone (position_of uid symbol) (portfolio s) = Some pos \<and> pf_shares pos < shrs)"
  shows "sell upper prices uid d s = (Inl InsufficientShares, s)"
  using assms by (auto simp: sell_def Let_def)

subsection \<open>The fill price\<close>

text \<open>
  Claim C6, amended. For a buy or a sell with shares > 0 and a non-empty symbol, the fill
  price is the price of the cache entry for the upper-cased symbol; if there is none, of the
  entry for that symbol with dots replaced by hyphens; if there is none either, the price
  sent by the client (0 when the request has none). The request fails with
  \<open>PriceUnavailable\<close> exactly when that price is \<open>\<le> 0\<close>, and a request that succeeds reports
  that price. A request with shares \<open>\<le> 0\<close> or with an empty symbol fails with
  \<open>InvalidParameters\<close> whatever the price.
\<close>

theorem price_resolution:
  assumes "request_symbol upper d = symbol" and "request_shares d = shrs"
    and "symbol \<noteq> []" and "0 < shrs"
    and "fill =
       (case dict_get prices symbol of
          Some q \<Rightarrow> q_price q
        | None \<Rightarrow>
            (case dict_get prices (replace_dot symbol) of
               Some q \<Rightarrow> q_price q
             | None \<Rightarrow> (case rq_price d of Some p \<Rightarrow> p | None \<Rightarrow> 0)))"
  shows "(fst (buy upper prices uid d s) = Inl PriceUnavailable \<longleftrightarrow> fill \<le> 0) \<and>
         (fst (sell upper prices uid d s) = Inl PriceUnavailable \<longleftrightarrow> fill \<le> 0) \<and>
         (\<forall>r. fst (buy upper prices uid d s) = Inr r \<longrightarrow> br_price r = fill) \<and>
         (\<forall>r. fst (sell upper prices uid d s) = Inr r \<longrightarrow> sr_price r = fill)"
proof -
  have fill: "resolve_price prices symbol d = fill"
    using assms(5) by (simp add: resolve_price_def live_quote_def get_price_def split: option.splits)
  show ?thesis
    using assms(1-4) fill
    by (auto simp: buy_def sell_def Let_def split: option.splits if_splits)
qed


subsection \<open>The claims on the example account\<close>

lemma fresh_account_eq:
  "fresh_account = \<lparr>user_balance = [\<lparr>ub_user_id = 1, ub_balance = 25000\<rparr>], portfolio = [],
                    transactions = []\<rparr>"
  by (simp add: example_defs route_defs)

lemma unrowed_after_buy_eq:
  "unrowed_after_buy =
     \<lparr>user_balance = [],
      portfolio = [\<lparr>pf_user_id = 1, pf_symbol = ''NABIL'', pf_shares = 10, pf_avg_price = 500\<rparr>],
      transactions = [\<lparr>tx_user_id = 1, tx_symbol = ''NABIL'', tx_type = ''BUY'', tx_shares = 10,
                       tx_price = 500, tx_total = 5000, tx_pnl = 0\<rparr>]\<rparr>"
  by (simp add: example_defs route_defs)

theorem buy_insufficient_funds_witness:
  "get_balance 1 fresh_account = 50 * 500 \<and>
   (\<exists>r. fst (buy ascii_upper (cache_at 500) 1 (order_for ''nabil'' 50) fresh_account) = Inr r) \<and>
   get_balance 1 fresh_account < 51 * 500 \<and>
   buy ascii_upper (cache_at 500) 1 (order_for ''nabil'' 51) fresh_account =
     (Inl InsufficientFunds, fresh_account)"
proof -
  have sy: "request_symbol ascii_upper (order_for ''nabil'' n) = ''NABIL''" for n
    by (simp add: order_for_def request_symbol_def ascii_upper_def ascii_upper_char_def)
  have sh: "request_shares (order_for ''nabil'' n) = n" for n
    by (simp add: order_for_def request_shares_def)
  have pr: "resolve_price (cache_at 500) ''NABIL'' (order_for ''nabil'' n) = 500" for n
    by (simp add: example_defs route_defs)
  have bal: "get_balance 1 fresh_account = 25000"
    by (simp add: fresh_account_eq get_balance_def)
  have pv: "positions_valid fresh_account"
    by (simp add: fresh_account_eq positions_valid_def)
  have a: "\<exists>r. fst (buy ascii_upper (cache_at 500) 1 (order_for ''nabil'' 50) fresh_account) = Inr r"
    using buy_insufficient_funds [OF sy sh pr, of 50 1 fresh_account] bal pv by simp
  have b: "fst (buy ascii_upper (cache_at 500) 1 (order_for ''nabil'' 51) fresh_account) = Inl InsufficientFunds \<and>
           snd (buy ascii_upper (cache_at 500) 1 (order_for ''nabil'' 51) fresh_account) = fresh_account"
    using buy_insufficient_funds [OF sy sh pr, of 51 1 fresh_account] bal by simp
  from a b bal show ?thesis by (simp add: prod_eq_iff)
qed

theorem buy_without_balance_row_witness:
  "\<not> has_balance_row 1 empty_database \<and>
   fst (buy ascii_upper (cache_at 500) 1 (order_for ''NABIL'' 10) empty_database) =
     Inr \<lparr>br_balance = 20000, br_price = 500\<rparr> \<and>
   get_balance 1 (snd (buy ascii_upper (cache_at 500) 1 (order_for ''NABIL'' 10) empty_database)) = 25000"
proof -
  have sy: "request_symbol ascii_upper (order_for ''NABIL'' 10) = ''NABIL''"
    by (simp add: order_for_def request_symbol_def ascii_upper_def ascii_upper_char_def)
  have sh: "request_shares (order_for ''NABIL'' 10) = 10"
    by (simp add: order_for_def request_shares_def)
  have pr: "resolve_price (cache_at 500) ''NABIL'' (order_for ''NABIL'' 10) = 500"
    by (simp add: example_defs route_defs)
  have le: "(10::real) * 500 \<le> INITIAL_BALANCE"
    by (simp add: INITIAL_BALANCE_def)
  have norow: "\<not> has_balance_row 1 empty_database"
    by (simp add: has_balance_row_def empty_database_def)
  from buy_without_balance_row [OF sy sh pr _ _ _ le norow positions_valid_empty] norow
  show ?thesis by (simp add: INITIAL_BALANCE_def)
qed

text \<open>
  Claim C4 as stated fails: the account holds no \<^verbatim>\<open>NABIL\<close>, the cache is empty and the request
  carries no price; the sell is refused with \<open>PriceUnavailable\<close>, not \<open>InsufficientShares\<close>.
\<close>

theorem sell_without_price_counterexample:
  "fetchone (position_of 1 ''NABIL'') (portfolio fresh_account) = None \<and>
   request_shares (order_for ''NABIL'' 5) = 5 \<and>
   sell ascii_upper [] 1 (order_for ''NABIL'' 5) fresh_account = (Inl PriceUnavailable, fresh_account) \<and>
   fst (sell ascii_upper [] 1 (order_for ''NABIL'' 5) fresh_account) \<noteq> Inl InsufficientShares"
  by (simp add: example_defs route_defs)

theorem sell_insufficient_shares_witness:
  "fetchone (position_of 1 ''NABIL'') (portfolio fresh_account) = None \<and>
   sell ascii_upper (cache_at 700) 1 (order_for ''NABIL'' 5) fresh_account =
     (Inl InsufficientShares, fresh_account) \<and>
   map_option pf_shares (fetchone (position_of 1 ''NABIL'') (portfolio after_first_buy)) = Some 10 \<and>
   sell ascii_upper (cache_at 700) 1 (order_for ''NABIL'' 11) after_first_buy =
     (Inl InsufficientShares, after_first_buy)"
proof -
  have sy: "request_symbol ascii_upper (order_for ''NABIL'' n) = ''NABIL''" for n
    by (simp add: order_for_def request_symbol_def ascii_upper_def ascii_upper_char_def)
  have sh: "request_shares (order_for ''NABIL'' n) = n" for n
    by (simp add: order_for_def request_shares_def)
  have pr: "resolve_price (cache_at 700) ''NABIL'' (order_for ''NABIL'' n) = 700" for n
    by (simp add: example_defs route_defs)
  have none: "fetchone (position_of 1 ''NABIL'') (portfolio fresh_account) = None"
    by (simp add: fresh_account_eq)
  have held: "fetchone (position_of 1 ''NABIL'') (portfolio after_first_buy) =
      Some \<lparr>pf_user_id = 1, pf_symbol = ''NABIL'', pf_shares = 10, pf_avg_price = 500\<rparr>"
    by (simp add: after_first_buy_eq position_of_def)
  have a: "sell ascii_upper (cache_at 700) 1 (order_for ''NABIL'' 5) fresh_account =
      (Inl InsufficientShares, fresh_account)"
    using sell_insufficient_shares [OF sy sh pr, of 5 1 fresh_account] none by simp
  have b: "sell ascii_upper (cache_at 700) 1 (order_for ''NABIL'' 11) after_first_buy =
      (Inl InsufficientShares, after_first_buy)"
    using sell_insufficient_shares [OF sy sh pr, of 11 1 after_first_buy] held by simp
  from none held a b show ?thesis by simp
qed

text \<open>
  Claim C6 as stated fails at three requests. With an empty cache and no client price the
  price resolved in the stated order is 0, but a request for 0 shares, and a request for 5
  shares that names no symbol, are refused with \<open>InvalidParameters\<close>, not \<open>PriceUnavailable\<close>.
  And a request for \<^verbatim>\<open>nabil\<close> at the client price 1, with a cache entry \<^verbatim>\<open>nabil\<close> at 500, is
  filled at 1: the cache is read under \<^verbatim>\<open>NABIL\<close>.
\<close>

theorem invalid_request_counterexample:
  "request_shares (order_for ''NABIL'' 0) = 0 \<and>
   resolve_price [] ''NABIL'' (order_for ''NABIL'' 0) \<le> 0 \<and>
   fst (buy ascii_upper [] 1 (order_for ''NABIL'' 0) fresh_account) = Inl InvalidParameters \<and>
   fst (sell ascii_upper [] 1 (order_for ''NABIL'' 0) fresh_account) = Inl InvalidParameters \<and>
   request_shares \<lparr>rq_symbol = None, rq_shares = Some 5, rq_price = None\<rparr> = 5 \<and>
   request_symbol ascii_upper \<lparr>rq_symbol = None, rq_shares = Some 5, rq_price = None\<rparr> = [] \<and>
   resolve_price [] [] \<lparr>rq_symbol = None, rq_shares = Some 5, rq_price = None\<rparr> \<le> 0 \<and>
   fst (buy ascii_upper [] 1 \<lparr>rq_symbol = None, rq_shares = Some 5, rq_price = None\<rparr>
          fresh_account) = Inl InvalidParameters \<and>
   fst (sell ascii_upper [] 1 \<lparr>rq_symbol = None, rq_shares = Some 5, rq_price = None\<rparr>
          fresh_account) = Inl InvalidParameters \<and>
   map_option q_price (dict_get [(''nabil'', flat_quote ''nabil'' 500)] ''nabil'') = Some 500 \<and>
   fst (buy ascii_upper [(''nabil'', flat_quote ''nabil'' 500)] 1 (priced_order ''nabil'' 10 1)
          fresh_account) = Inr \<lparr>br_balance = 24990, br_price = 1\<rparr>"
  by (simp add: example_defs route_defs)

theorem price_resolution_witness:
  "dict_get [(''BRK-B'', flat_quote ''BRK-B'' 300)] ''BRK.B'' = None \<and>
   fst (buy ascii_upper [(''BRK-B'', flat_quote ''BRK-B'' 300)] 1 (priced_order ''brk.b'' 10 1) fresh_account) =
     Inr \<lparr>br_balance = 22000, br_price = 300\<rparr> \<and>
   fst (buy ascii_upper [] 1 (priced_order ''brk.b'' 10 1) fresh_account) =
     Inr \<lparr>br_balance = 24990, br_price = 1\<rparr> \<and>
   fst (sell ascii_upper [] 1 (priced_order ''brk.b'' 10 0) fresh_account) = Inl PriceUnavailable"
proof -
  let ?c = "[(''BRK-B'', flat_quote ''BRK-B'' 300)]"
  have sy: "request_symbol ascii_upper (priced_order ''brk.b'' n p) = ''BRK.B''" for n p
    by (simp add: priced_order_def request_symbol_def ascii_upper_def ascii_upper_char_def)
  have sh: "request_shares (priced_order ''brk.b'' n p) = n" for n p
    by (simp add: priced_order_def request_shares_def)
  have ne: "''BRK.B'' \<noteq> []" by simp
  have pos: "(0::real) < 10" by simp
  have f1: "(300::real) =
       (case dict_get ?c ''BRK.B'' of
          Some q \<Rightarrow> q_price q
        | None \<Rightarrow>
            (case dict_get ?c (replace_dot ''BRK.B'') of
               Some q \<Rightarrow> q_price q
             | None \<Rightarrow> (case rq_price (priced_order ''brk.b'' 10 1) of Some p \<Rightarrow> p | None \<Rightarrow> 0)))"
    by (simp add: replace_dot_def flat_quote_def)
  have f2: "p =
       (case dict_get [] ''BRK.B'' of
          Some q \<Rightarrow> q_price q
        | None \<Rightarrow>
            (case dict_get [] (replace_dot ''BRK.B'') of
               Some q \<Rightarrow> q_price q
             | None \<Rightarrow> (case rq_price (priced_order ''brk.b'' 10 p) of Some p \<Rightarrow> p | None \<Rightarrow> 0)))" for p
    by (simp add: priced_order_def)
  have a: "fst (buy ascii_upper ?c 1 (priced_order ''brk.b'' 10 1) fresh_account) =
      Inr \<lparr>br_balance = 22000, br_price = 300\<rparr>"
    by (simp add: example_defs route_defs)
  have b: "fst (buy ascii_upper [] 1 (priced_order ''brk.b'' 10 1) fresh_account) =
     Inr \<lparr>br_balance = 24990, br_price = 1\<rparr>"
    by (simp add: example_defs route_defs)
  have c: "fst (sell ascii_upper [] 1 (priced_order ''brk.b'' 10 0) fresh_account) = Inl PriceUnavailable"
    using price_resolution [OF sy sh ne pos f2 [of 0], where uid = 1 and s = fresh_account] by simp
  have "br_price \<lparr>br_balance = 22000, br_price = 300\<rparr> = (300::real)"
    using price_resolution [OF sy sh ne pos f1, where uid = 1 and s = fresh_account] a by simp
  with a b c show ?thesis by (simp add: flat_quote_def)
qed

subsection \<open>The ledger of a user with a balance row\<close>

text \<open>
  With a row in \<^verbatim>\<open>user_balance\<close> and \<^verbatim>\<open>UNIQUE(user_id, symbol)\<close> on the portfolio, a sell credits
  the proceeds, records the profit, and closes or reduces the position; a successful buy
  leaves the balance plus the cost basis unchanged and a successful sell changes it by the
  recorded profit.
\<close>


lemma get_balance_after_update:
  assumes "has_balance_row uid s"
  shows "get_balance uid
           (s'\<lparr>user_balance :=
                 sql_update (\<lambda>r. ub_user_id r = uid) (\<lambda>r. r\<lparr>ub_balance := b\<rparr>)
                   (user_balance s)\<rparr>) = b"
proof -
  have "fetchone (\<lambda>r. ub_user_id r = uid)
          (sql_update (\<lambda>r. ub_user_id r = uid) (\<lambda>r. r\<lparr>ub_balance := b\<rparr>) (user_balance s)) =
        map_option (\<lambda>r. r\<lparr>ub_balance := b\<rparr>)
          (fetchone (\<lambda>r. ub_user_id r = uid) (user_balance s))"
    by (rule fetchone_sql_update) simp
  with assms show ?thesis
    by (auto simp: get_balance_def has_balance_row_def)
qed

lemma unique_no_other_match:
  assumes "distinct (map (\<lambda>r. (pf_user_id r, pf_symbol r)) (r # rows))"
    and "position_of uid symbol r"
  shows "fetchone (position_of uid symbol) rows = None"
proof -
  have "\<not> position_of uid symbol r'" if "r' \<in> set rows" for r'
  proof
    assume "position_of uid symbol r'"
    with assms(2) have "(pf_user_id r', pf_symbol r') = (pf_user_id r, pf_symbol r)"
      by (simp add: position_of_def)
    with that have "(pf_user_id r, pf_symbol r) \<in> (\<lambda>r. (pf_user_id r, pf_symbol r)) ` set rows"
      by (metis (no_types, lifting) image_eqI)
    with assms(1) show False by simp
  qed
  then show ?thesis by (simp add: fetchone_None_iff)
qed

lemma sum_after_update:
  fixes g :: "portfolio_row \<Rightarrow> real"
  assumes "distinct (map (\<lambda>r. (pf_user_id r, pf_symbol r)) rows)"
    and "fetchone (position_of uid symbol) rows = Some old"
    and "\<And>r. pf_user_id (f r) = pf_user_id r"
  shows "sum_list (map g (filter (\<lambda>r. pf_user_id r = uid)
                            (sql_update (position_of uid symbol) f rows))) =
         sum_list (map g (filter (\<lambda>r. pf_user_id r = uid) rows)) - g old + g (f old)"
  using assms(1,2)
proof (induction rows)
  case Nil
  then show ?case by simp
next
  case (Cons r rows)
  show ?case
  proof (cases "position_of uid symbol r")
    case True
    with Cons.prems have old: "old = r" by simp
    from Cons.prems(1) True have "fetchone (position_of uid symbol) rows = None"
      by (rule unique_no_other_match)
    then have "sql_update (position_of uid symbol) f rows = rows"
      by (rule sql_update_no_match)
    then have "sql_update (position_of uid symbol) f (r # rows) = f r # rows"
      using True by (simp add: sql_update_def)
    moreover have "pf_user_id r = uid" using True by (simp add: position_of_def)
    ultimately show ?thesis by (simp add: old assms(3))
  next
    case False
    with Cons.prems have "fetchone (position_of uid symbol) rows = Some old"
      and "distinct (map (\<lambda>r. (pf_user_id r, pf_symbol r)) rows)" by simp_all
    from Cons.IH [OF this(2) this(1)] False show ?thesis
      by (simp add: sql_update_def)
  qed
qed

lemma sum_after_delete:
  fixes g :: "portfolio_row \<Rightarrow> real"
  assumes "distinct (map (\<lambda>r. (pf_user_id r, pf_symbol r)) rows)"
    and "fetchone (position_of uid symbol) rows = Some old"
  shows "sum_list (map g (filter (\<lambda>r. pf_user_id r = uid)
                            (sql_delete (position_of uid symbol) rows))) =
         sum_list (map g (filter (\<lambda>r. pf_user_id r = uid) rows)) - g old"
  using assms
proof (induction rows)
  case Nil
  then show ?case by simp
next
  case (Cons r rows)
  show ?case
  proof (cases "position_of uid symbol r")
    case True
    with Cons.prems have old: "old = r" by simp
    from Cons.prems(1) True have "fetchone (position_of uid symbol) rows = None"
      by (rule unique_no_other_match)
    then have "sql_delete (position_of uid symbol) rows = rows"
      by (simp add: sql_delete_def fetchone_None_iff)
    then have "sql_delete (position_of uid symbol) (r # rows) = rows"
      using True by (simp add: sql_delete_def)
    moreover have "pf_user_id r = uid" using True by (simp add: position_of_def)
    ultimately show ?thesis by (simp add: old)
  next
    case False
    with Cons.prems have "fetchone (position_of uid symbol) rows = Some old"
      and "distinct (map (\<lambda>r. (pf_user_id r, pf_symbol r)) rows)" by simp_all
    from Cons.IH [OF this(2) this(1)] False show ?thesis
      by (simp add: sql_delete_def)
  qed
qed

lemma buy_success_cases:
  assumes "fst (buy upper prices uid d s) = Inr r"
  shows "request_symbol upper d \<noteq> [] \<and> 0 < request_shares d \<and>
         0 < resolve_price prices (request_symbol upper d) d \<and>
         request_shares d * resolve_price prices (request_symbol upper d) d \<le> get_balance uid s \<and>
         (\<forall>old. fetchone (position_of uid (request_symbol upper d)) (portfolio s) = Some old
                \<longrightarrow> pf_shares old + request_shares d \<noteq> 0)"
  using assms by (auto simp: buy_def Let_def split: if_splits option.splits)

lemma sell_success_cases:
  assumes "fst (sell upper prices uid d s) = Inr r"
  shows "request_symbol upper d \<noteq> [] \<and> 0 < request_shares d \<and>
         0 < resolve_price prices (request_symbol upper d) d \<and>
         (\<exists>pos. fetchone (position_of uid (request_symbol upper d)) (portfolio s) = Some pos \<and>
                request_shares d \<le> pf_shares pos)"
  using assms by (auto simp: sell_def Let_def split: if_splits option.splits)

lemma buy_conserves_exposure:
  assumes row: "has_balance_row uid s" and uniq: "portfolio_unique s"
    and ok: "fst (buy upper prices uid d s) = Inr r"
  shows "nominal_exposure uid (snd (buy upper prices uid d s)) = nominal_exposure uid s"
proof -
  define symbol where "symbol = request_symbol upper d"
  define shrs where "shrs = request_shares d"
  define prc where "prc = resolve_price prices symbol d"
  from buy_success_cases [OF ok]
  have v: "symbol \<noteq> []" "0 < shrs" "0 < prc" "shrs * prc \<le> get_balance uid s"
    and nz: "\<And>old. fetchone (position_of uid symbol) (portfolio s) = Some old
               \<Longrightarrow> pf_shares old + shrs \<noteq> 0"
    by (simp_all add: symbol_def shrs_def prc_def)
  show ?thesis
  proof (cases "fetchone (position_of uid symbol) (portfolio s)")
    case None
    have "buy upper prices uid d s = 
     (Inr \<lparr>br_balance = get_balance uid s - shrs * prc, br_price = prc\<rparr>,
      s\<lparr>portfolio :=
           sql_insert \<lparr>pf_user_id = uid, pf_symbol = symbol, pf_shares = shrs,
                       pf_avg_price = prc\<rparr> (portfolio s),
         transactions :=
           sql_insert \<lparr>tx_user_id = uid, tx_symbol = symbol, tx_type = ''BUY'', tx_shares = shrs,
                       tx_price = prc, tx_total = shrs * prc, tx_pnl = 0\<rparr> (transactions s),
         user_balance :=
           sql_update (\<lambda>r. ub_user_id r = uid)
             (\<lambda>r. r\<lparr>ub_balance := get_balance uid s - shrs * prc\<rparr>) (user_balance s)\<rparr>)"
      using v None by (intro buy_new) (simp_all add: symbol_def shrs_def prc_def)
    then show ?thesis
      by (simp add: nominal_exposure_def get_balance_after_update [OF row] cost_basis_def
          sql_insert_def)
  next
    case (Some old)
    have eq: "buy upper prices uid d s =
     (Inr \<lparr>br_balance = get_balance uid s - shrs * prc, br_price = prc\<rparr>,
      s\<lparr>portfolio :=
           sql_update (position_of uid symbol)
             (\<lambda>r. r\<lparr>pf_shares := pf_shares old + shrs,
                     pf_avg_price :=
                       (pf_avg_price old * pf_shares old + shrs * prc) / (pf_shares old + shrs)\<rparr>)
             (portfolio s),
         transactions :=
           sql_insert \<lparr>tx_user_id = uid, tx_symbol = symbol, tx_type = ''BUY'', tx_shares = shrs,
                       tx_price = prc, tx_total = shrs * prc, tx_pnl = 0\<rparr> (transactions s),
         user_balance :=
           sql_update (\<lambda>r. ub_user_id r = uid)
             (\<lambda>r. r\<lparr>ub_balance := get_balance uid s - shrs * prc\<rparr>) (user_balance s)\<rparr>)"
      using v Some nz [OF Some] by (intro buy_existing) (simp_all add: symbol_def shrs_def prc_def)
    have "cost_basis uid (snd (buy upper prices uid d s)) =
          cost_basis uid s - pf_shares old * pf_avg_price old +
          (pf_shares old + shrs) *
            ((pf_avg_price old * pf_shares old + shrs * prc) / (pf_shares old + shrs))"
      using uniq Some
      by (simp add: eq cost_basis_def portfolio_unique_def
          sum_after_update [where g = "\<lambda>r. pf_shares r * pf_avg_price r"])
    also have "\<dots> = cost_basis uid s + shrs * prc"
      using nz [OF Some] by (simp add: mult.commute)
    finally show ?thesis
      by (simp add: nominal_exposure_def eq get_balance_after_update [OF row])
  qed
qed

lemma sell_changes_exposure_by_pnl:
  assumes row: "has_balance_row uid s" and uniq: "portfolio_unique s"
    and ok: "fst (sell upper prices uid d s) = Inr r"
  shows "nominal_exposure uid (snd (sell upper prices uid d s)) = nominal_exposure uid s + sr_pnl r"
proof -
  define symbol where "symbol = request_symbol upper d"
  define shrs where "shrs = request_shares d"
  define prc where "prc = resolve_price prices symbol d"
  from sell_success_cases [OF ok] obtain pos
    where v: "symbol \<noteq> []" "0 < shrs" "0 < prc"
      and pos: "fetchone (position_of uid symbol) (portfolio s) = Some pos"
      and le: "shrs \<le> pf_shares pos"
    by (auto simp: symbol_def shrs_def prc_def)
  have eq: "sell upper prices uid d s =
     (Inr \<lparr>sr_balance = get_balance uid s + shrs * prc,
           sr_pnl = (prc - pf_avg_price pos) * shrs, sr_price = prc\<rparr>,
      s\<lparr>portfolio :=
           (if pf_shares pos - shrs \<le> 0 then sql_delete (position_of uid symbol) (portfolio s)
            else sql_update (position_of uid symbol)
                   (\<lambda>r. r\<lparr>pf_shares := pf_shares pos - shrs\<rparr>) (portfolio s)),
         transactions :=
           sql_insert \<lparr>tx_user_id = uid, tx_symbol = symbol, tx_type = ''SELL'', tx_shares = shrs,
                       tx_price = prc, tx_total = shrs * prc,
                       tx_pnl = (prc - pf_avg_price pos) * shrs\<rparr> (transactions s),
         user_balance :=
           sql_update (\<lambda>r. ub_user_id r = uid)
             (\<lambda>r. r\<lparr>ub_balance := get_balance uid s + shrs * prc\<rparr>) (user_balance s)\<rparr>)"
    using v pos le by (intro sell_held) (simp_all add: symbol_def shrs_def prc_def)
  with ok have pnl: "sr_pnl r = (prc - pf_avg_price pos) * shrs" by auto
  have "cost_basis uid (snd (sell upper prices uid d s)) =
        cost_basis uid s - shrs * pf_avg_price pos"
  proof (cases "pf_shares pos - shrs \<le> 0")
    case True
    with le have "pf_shares pos = shrs" by simp
    with True uniq pos show ?thesis
      by (simp add: eq cost_basis_def portfolio_unique_def
          sum_after_delete [where g = "\<lambda>r. pf_shares r * pf_avg_price r"])
  next
    case False
    from uniq pos have
      "sum_list (map (\<lambda>r. pf_shares r * pf_avg_price r)
         (filter (\<lambda>r. pf_user_id r = uid)
            (sql_update (position_of uid symbol) (\<lambda>r. r\<lparr>pf_shares := pf_shares pos - shrs\<rparr>)
               (portfolio s)))) =
       cost_basis uid s - pf_shares pos * pf_avg_price pos +
       (pf_shares pos - shrs) * pf_avg_price pos"
      unfolding cost_basis_def portfolio_unique_def
      by (subst sum_after_update [where old = pos]) simp_all
    with False show ?thesis
      by (simp add: eq cost_basis_def algebra_simps)
  qed
  then show ?thesis
    by (simp add: nominal_exposure_def eq get_balance_after_update [OF row] pnl algebra_simps)
qed

lemma sell_effects:
  assumes row: "has_balance_row uid s"
    and "request_symbol upper d = symbol" and "request_shares d = shrs"
    and "resolve_price prices symbol d = prc"
    and "symbol \<noteq> []" and "0 < shrs" and "0 < prc"
    and pos: "fetchone (position_of uid symbol) (portfolio s) = Some pos"
    and le: "shrs \<le> pf_shares pos"
  shows "get_balance uid (snd (sell upper prices uid d s)) = get_balance uid s + shrs * prc"
    and "transactions (snd (sell upper prices uid d s)) =
           transactions s @
             [\<lparr>tx_user_id = uid, tx_symbol = symbol, tx_type = ''SELL'', tx_shares = shrs,
               tx_price = prc, tx_total = shrs * prc,
               tx_pnl = (prc - pf_avg_price pos) * shrs\<rparr>]"
    and "fetchone (position_of uid symbol) (portfolio (snd (sell upper prices uid d s))) =
           (if pf_shares pos - shrs \<le> 0 then None
            else Some (pos\<lparr>pf_shares := pf_shares pos - shrs\<rparr>))"
proof -
  note eq = sell_held [OF assms(2-9)]
  show "get_balance uid (snd (sell upper prices uid d s)) = get_balance uid s + shrs * prc"
    by (simp add: eq get_balance_after_update [OF row])
  show "transactions (snd (sell upper prices uid d s)) =
           transactions s @
             [\<lparr>tx_user_id = uid, tx_symbol = symbol, tx_type = ''SELL'', tx_shares = shrs,
               tx_price = prc, tx_total = shrs * prc,
               tx_pnl = (prc - pf_avg_price pos) * shrs\<rparr>]"
    by (simp add: eq sql_insert_def)
  show "fetchone (position_of uid symbol) (portfolio (snd (sell upper prices uid d s))) =
           (if pf_shares pos - shrs \<le> 0 then None
            else Some (pos\<lparr>pf_shares := pf_shares pos - shrs\<rparr>))"
    using pos by (simp add: eq fetchone_sql_delete fetchone_position_update_shares)
qed

subsection \<open>Trades of a user without a balance row\<close>

text \<open>
  Claim C2 at a failing input. The user of \<open>unrowed_after_buy\<close> holds 10 \<^verbatim>\<open>NABIL\<close> and has no
  row in \<^verbatim>\<open>user_balance\<close>. Selling 5 at 700 succeeds and reports the balance 28500, but the
  \<^verbatim>\<open>UPDATE\<close> matches no row: the balance read back is 25000, as before the sell, and the
  proceeds of 3500 are credited nowhere.
\<close>

theorem sell_without_balance_row_not_credited:
  "fst (sell ascii_upper (cache_at 700) 1 (order_for ''NABIL'' 5) unrowed_after_buy) =
     Inr \<lparr>sr_balance = 28500, sr_pnl = 1000, sr_price = 700\<rparr> \<and>
   get_balance 1 unrowed_after_buy = 25000 \<and>
   get_balance 1 (snd (sell ascii_upper (cache_at 700) 1 (order_for ''NABIL'' 5) unrowed_after_buy)) = 25000"
  by (simp add: unrowed_after_buy_eq) (simp add: example_defs route_defs)

text \<open>
  Claim C3 at a failing input. For a user without a row in \<^verbatim>\<open>user_balance\<close>, a successful buy
  of 10 \<^verbatim>\<open>NABIL\<close> at 500 raises the balance plus the cost basis of the positions from 25000 to
  30000: the position is added and the debit is lost.
\<close>

theorem buy_without_balance_row_creates_money:
  "fst (buy ascii_upper (cache_at 500) 1 (order_for ''NABIL'' 10) empty_database) =
     Inr \<lparr>br_balance = 20000, br_price = 500\<rparr> \<and>
   nominal_exposure 1 empty_database = 25000 \<and>
   nominal_exposure 1 (snd (buy ascii_upper (cache_at 500) 1 (order_for ''NABIL'' 10) empty_database)) = 30000"
  by (simp add: nominal_exposure_def cost_basis_def example_defs route_defs)


subsection \<open>Dicts and the results of the adapters\<close>

lemma dict_get_dict_set:
  "dict_get (dict_set d k v) k' = (if k' = k then Some v else dict_get d k')"
  by (induction d) auto

lemma keys_dict_set:
  "map fst (dict_set d k v) = (if k \<in> fst ` set d then map fst d else map fst d @ [k])"
  by (induction d) force+

lemma distinct_dict_set:
  "distinct (map fst d) \<Longrightarrow> distinct (map fst (dict_set d k v))"
  by (simp add: keys_dict_set)

lemma set_dict_set:
  "set (dict_set d k v) \<subseteq> insert (k, v) (set d)"
  by (induction d) (auto split: if_splits)

lemma dict_get_None_iff:
  "dict_get d k = None \<longleftrightarrow> k \<notin> fst ` set d"
  by (induction d) (auto split: if_splits)

lemma dict_get_dict_update:
  "distinct (map fst other) \<Longrightarrow>
   dict_get (dict_update d other) k =
     (case dict_get other k of Some v \<Rightarrow> Some v | None \<Rightarrow> dict_get d k)"
proof (induction other arbitrary: d)
  case Nil
  then show ?case by simp
next
  case (Cons a other)
  obtain k' v' where a: "a = (k', v')" by (cases a)
  from Cons.prems a have "k' \<notin> fst ` set other" and "distinct (map fst other)" by auto
  then have "dict_get other k' = None" by (simp add: dict_get_None_iff)
  with Cons.IH [OF \<open>distinct (map fst other)\<close>, of "dict_set d k' v'"] a show ?case
    by (auto simp: dict_get_dict_set split: option.splits)
qed

lemma distinct_add_entry:
  "distinct (map fst results) \<Longrightarrow> distinct (map fst (add_entry e results))"
  by (auto simp: add_entry_def distinct_dict_set split: option.splits)

lemma distinct_fold_add_entry:
  "distinct (map fst acc) \<Longrightarrow>
   distinct (map fst (fold (\<lambda>x results. add_entry (f x) results) xs acc))"
  by (induction xs arbitrary: acc) (simp_all add: distinct_add_entry)

lemma set_fold_add_entry:
  "set (fold (\<lambda>x results. add_entry (f x) results) xs acc) \<subseteq>
     set acc \<union> {e. \<exists>x\<in>set xs. f x = Some e}"
proof (induction xs arbitrary: acc)
  case Nil
  then show ?case by simp
next
  case (Cons x xs)
  have "set (add_entry (f x) acc) \<subseteq> set acc \<union> {e. f x = Some e}"
    using set_dict_set by (fastforce simp: add_entry_def split: option.splits)
  with Cons [of "add_entry (f x) acc"] show ?case by auto
qed

lemma distinct_fetch_nepse_api: "distinct (map fst (fetch_nepse_api round2 net))"
  by (simp add: fetch_nepse_api_def distinct_fold_add_entry Let_def split: option.splits)

lemma distinct_fetch_merolagani:
  "distinct (map fst (fetch_merolagani round2 pfloat pint net))"
  by (simp add: fetch_merolagani_def distinct_fold_add_entry split: option.splits)

subsection \<open>The refresh tick\<close>

text \<open>
  Claim C7. On a refresh tick the NEPSE API adapter is invoked first, and the merolagani
  adapter is invoked after it exactly when the first result is empty. A non-empty result (the
  first, else the second) is merged into the cache key by key: a symbol of the result gets
  the quote of the result, every other symbol keeps its entry. If both results are empty,
  the cache after the tick is the cache before it.
\<close>

theorem refresh_all_prices_fallback:
  "refresh_all_prices round2 pfloat pint net prices = (cache, calls) \<Longrightarrow>
   calls = (if fetch_nepse_api round2 net = [] then [NepseApi, Merolagani] else [NepseApi]) \<and>
   (fetch_nepse_api round2 net \<noteq> [] \<longrightarrow>
      (\<forall>k. dict_get cache k =
         (case dict_get (fetch_nepse_api round2 net) k of
            Some q \<Rightarrow> Some q
          | None \<Rightarrow> dict_get prices k))) \<and>
   (fetch_nepse_api round2 net = [] \<and> fetch_merolagani round2 pfloat pint net \<noteq> [] \<longrightarrow>
      (\<forall>k. dict_get cache k =
         (case dict_get (fetch_merolagani round2 pfloat pint net) k of
            Some q \<Rightarrow> Some q
          | None \<Rightarrow> dict_get prices k))) \<and>
   (fetch_nepse_api round2 net = [] \<and> fetch_merolagani round2 pfloat pint net = []
      \<longrightarrow> cache = prices)"
  by (auto simp: refresh_all_prices_def Let_def dict_get_dict_update distinct_fetch_nepse_api
      distinct_fetch_merolagani split: if_splits)

subsection \<open>What one record of a source becomes\<close>

lemma nepse_entry_accepted:
  assumes "nepse_entry round2 item = Some (k, q)"
  shows "k \<noteq> [] \<and> 0 < nepse_last item \<and> q_symbol q = k"
  using assms by (auto simp: nepse_entry_def Let_def split: if_splits)

lemma merolagani_entry_accepted:
  assumes "merolagani_entry round2 pfloat pint cols = Some (k, q)"
  shows "6 \<le> length cols \<and> k = cols ! 1 \<and> q_symbol q = k \<and>
         (\<exists>ltp. float_or pfloat (cols ! 2) 0 = Some ltp \<and> 0 < ltp)"
proof -
  have len: "\<not> length cols < 6"
    using assms by (cases "length cols < 6") (simp_all add: merolagani_entry_def)
  obtain ltp where ltp: "float_or pfloat (cols ! 2) 0 = Some ltp"
    using assms len
    by (cases "float_or pfloat (cols ! 2) 0") (simp_all add: merolagani_entry_def)
  obtain chg where chg: "float_or pfloat (cols ! 5) 0 = Some chg"
    using assms len ltp
    by (cases "float_or pfloat (cols ! 5) 0") (simp_all add: merolagani_entry_def)
  obtain vol where
    vol: "(if 6 < length cols then int_or_zero pint (cols ! 6) else Some 0) = Some vol"
    using assms len ltp chg
    by (cases "if 6 < length cols then int_or_zero pint (cols ! 6) else Some 0")
      (simp_all add: merolagani_entry_def Let_def)
  obtain high where
    high: "(if 3 < length cols then float_or pfloat (cols ! 3) ltp else Some ltp) = Some high"
    using assms len ltp chg vol
    by (cases "if 3 < length cols then float_or pfloat (cols ! 3) ltp else Some ltp")
      (simp_all add: merolagani_entry_def Let_def)
  obtain low where
    low: "(if 4 < length cols then float_or pfloat (cols ! 4) ltp else Some ltp) = Some low"
    using assms len ltp chg vol high
    by (cases "if 4 < length cols then float_or pfloat (cols ! 4) ltp else Some ltp")
      (simp_all add: merolagani_entry_def Let_def)
  have body: "(if 0 < ltp
        then Some (cols ! 1,
               \<lparr>q_symbol = cols ! 1, q_price = round2 ltp, q_change = round2 chg,
                q_changePercent =
                  round2 (if ltp - chg \<noteq> 0 then chg / (ltp - chg) * 100 else 0),
                q_volume = vol, q_high = round2 high,
                q_low = round2 low, q_open = round2 (ltp - chg),
                q_prevClose = round2 (ltp - chg)\<rparr>)
        else None) = Some (k, q)"
    (is "?body = _")
  proof -
    have "merolagani_entry round2 pfloat pint cols = ?body"
      using len ltp chg vol high low by (simp add: merolagani_entry_def Let_def)
    with assms show ?thesis by simp
  qed
  then have pos: "0 < ltp" by (cases "0 < ltp") simp_all
  from body have "Some (cols ! 1,
               \<lparr>q_symbol = cols ! 1, q_price = round2 ltp, q_change = round2 chg,
                q_changePercent =
                  round2 (if ltp - chg \<noteq> 0 then chg / (ltp - chg) * 100 else 0),
                q_volume = vol, q_high = round2 high,
                q_low = round2 low, q_open = round2 (ltp - chg),
                q_prevClose = round2 (ltp - chg)\<rparr>) = Some (k, q)"
    by (simp only: pos if_True)
  then have "k = cols ! 1" and "q_symbol q = cols ! 1"
    by auto
  with len ltp pos show ?thesis by auto
qed

lemma fetch_nepse_api_entries:
  assumes "(k, q) \<in> set (fetch_nepse_api round2 net)"
  shows "\<exists>data item. net_nepse net = Some data \<and>
           item \<in> set (or_list (nd_content data) (or_list (nd_data data) [])) \<and>
           nepse_entry round2 item = Some (k, q)"
proof (cases "net_nepse net")
  case None
  with assms show ?thesis by (simp add: fetch_nepse_api_def split: if_splits)
next
  case (Some data)
  with assms have
    "(k, q) \<in> set (fold (\<lambda>item results. add_entry (nepse_entry round2 item) results)
                (or_list (nd_content data) (or_list (nd_data data) [])) [])"
    by (simp add: fetch_nepse_api_def Let_def split: if_splits)
  with set_fold_add_entry [of "nepse_entry round2" _ "[]"] Some show ?thesis by fastforce
qed

lemma fetch_merolagani_entries:
  assumes "(k, q) \<in> set (fetch_merolagani round2 pfloat pint net)"
  shows "\<exists>table cols. net_merolagani net = Some (Some table) \<and> cols \<in> set (drop 1 table) \<and>
           merolagani_entry round2 pfloat pint cols = Some (k, q)"
proof (cases "net_merolagani net")
  case None
  with assms show ?thesis by (simp add: fetch_merolagani_def split: if_splits)
next
  case outer: (Some page)
  show ?thesis
  proof (cases page)
    case None
    with outer assms show ?thesis by (simp add: fetch_merolagani_def split: if_splits)
  next
    case (Some table)
    with outer assms have
      "(k, q) \<in> set (fold (\<lambda>cols results.
                            add_entry (merolagani_entry round2 pfloat pint cols) results)
                (drop 1 table) [])"
      by (simp add: fetch_merolagani_def split: if_splits)
    with set_fold_add_entry [of "merolagani_entry round2 pfloat pint" _ "[]"] outer Some
    show ?thesis by fastforce
  qed
qed

text \<open>
  The API adapter accepts a record only with a non-empty symbol and a positive last price;
  the scrape adapter accepts a row only with a positive last price.
\<close>

lemma fetch_nepse_api_accepts:
  assumes "(k, q) \<in> set (fetch_nepse_api round2 net)"
  shows "k \<noteq> [] \<and> (\<exists>data item. net_nepse net = Some data \<and>
           item \<in> set (or_list (nd_content data) (or_list (nd_data data) [])) \<and>
           0 < nepse_last item)"
  using fetch_nepse_api_entries [OF assms] nepse_entry_accepted by blast

lemma fetch_merolagani_accepts:
  assumes "(k, q) \<in> set (fetch_merolagani round2 pfloat pint net)"
  shows "\<exists>table cols ltp. net_merolagani net = Some (Some table) \<and>
           cols \<in> set (drop 1 table) \<and> k = cols ! 1 \<and>
           float_or pfloat (cols ! 2) 0 = Some ltp \<and> 0 < ltp"
proof -
  from fetch_merolagani_entries [OF assms] obtain table cols
    where "net_merolagani net = Some (Some table)" and "cols \<in> set (drop 1 table)"
      and "merolagani_entry round2 pfloat pint cols = Some (k, q)"
    by blast
  with merolagani_entry_accepted [of round2 pfloat pint cols k q] show ?thesis by blast
qed

subsection \<open>The refresh tick on an example\<close>

text \<open>
  The prices of the example page are integers, which \<^verbatim>\<open>round(x, 2)\<close> returns as they are; the
  example is run with the identity for \<open>round2\<close>.
\<close>

lemmas adapter_defs = fetch_merolagani_def merolagani_entry_def float_or_def int_or_zero_def
  strip_commas_def decimal_float_def decimal_int_def unsigned_decimal_def unsigned_int_def
  digit_value_def add_entry_def fetch_nepse_api_def nepse_entry_def nepse_last_def
  nepse_prev_def or_num_def or_str_def or_list_def py_int_def Let_def

lemma scrape_only_quotes:
  "fetch_merolagani (\<lambda>x. x) decimal_float decimal_int scrape_only =
     [(''NABIL'',
       \<lparr>q_symbol = ''NABIL'', q_price = 505, q_change = 5, q_changePercent = 1,
        q_volume = 1200, q_high = 510, q_low = 499, q_open = 500, q_prevClose = 500\<rparr>)]"
  by (simp add: scrape_only_def adapter_defs)

lemma scrape_only_api: "fetch_nepse_api round2 scrape_only = []"
  by (simp add: scrape_only_def fetch_nepse_api_def)

theorem refresh_all_prices_fallback_witness:
  "fetch_nepse_api (\<lambda>x. x) scrape_only = [] \<and>
   fetch_merolagani (\<lambda>x. x) decimal_float decimal_int scrape_only \<noteq> [] \<and>
   snd (refresh_all_prices (\<lambda>x. x) decimal_float decimal_int scrape_only
          [(''EBL'', flat_quote ''EBL'' 700), (''NABIL'', flat_quote ''NABIL'' 500)]) =
     [NepseApi, Merolagani] \<and>
   map_option q_price
     (dict_get (fst (refresh_all_prices (\<lambda>x. x) decimal_float decimal_int scrape_only
                       [(''EBL'', flat_quote ''EBL'' 700), (''NABIL'', flat_quote ''NABIL'' 500)]))
        ''NABIL'') = Some 505 \<and>
   map_option q_price
     (dict_get (fst (refresh_all_prices (\<lambda>x. x) decimal_float decimal_int scrape_only
                       [(''EBL'', flat_quote ''EBL'' 700), (''NABIL'', flat_quote ''NABIL'' 500)]))
        ''EBL'') = Some 700"
proof -
  let ?old = "[(''EBL'', flat_quote ''EBL'' 700), (''NABIL'', flat_quote ''NABIL'' 500)]"
  let ?r = "refresh_all_prices (\<lambda>x. x) decimal_float decimal_int scrape_only ?old"
  have ne: "fetch_merolagani (\<lambda>x. x) decimal_float decimal_int scrape_only \<noteq> []"
    by (simp add: scrape_only_quotes)
  have "?r = (fst ?r, snd ?r)" by simp
  from refresh_all_prices_fallback [OF this] scrape_only_api ne
  have calls: "snd ?r = [NepseApi, Merolagani]"
    and merged: "\<And>k. dict_get (fst ?r) k =
         (case dict_get (fetch_merolagani (\<lambda>x. x) decimal_float decimal_int scrape_only) k of
            Some q \<Rightarrow> Some q
          | None \<Rightarrow> dict_get ?old k)"
    by simp_all
  have "map_option q_price (dict_get (fst ?r) ''NABIL'') = Some 505"
    by (simp only: merged) (simp add: scrape_only_quotes)
  moreover have "map_option q_price (dict_get (fst ?r) ''EBL'') = Some 700"
    by (simp only: merged) (simp add: scrape_only_quotes flat_quote_def)
  ultimately show ?thesis using scrape_only_api ne calls by simp
qed

subsection \<open>Which records are accepted\<close>

text \<open>
  Claim C8 at a failing input. A row of the scraped table whose symbol cell is empty and
  whose last price is 100 is accepted: \<^verbatim>\<open>fetch_merolagani\<close> tests only \<^verbatim>\<open>ltp > 0\<close> (line 132),
  where \<^verbatim>\<open>fetch_nepse_api\<close> tests \<^verbatim>\<open>sym and ltp > 0\<close> (line 169), and the result has an entry
  under the empty symbol, whatever \<^verbatim>\<open>round\<close> returns.
\<close>

theorem fetch_merolagani_accepts_empty_symbol:
  "fetch_merolagani round2 decimal_float decimal_int blank_symbol_page =
     [([],
       \<lparr>q_symbol = [], q_price = round2 100, q_change = round2 5,
        q_changePercent = round2 (5 / 95 * 100), q_volume = 0, q_high = round2 101,
        q_low = round2 99, q_open = round2 95, q_prevClose = round2 95\<rparr>)]"
  by (simp add: blank_symbol_page_def adapter_defs)

end
